theory Spec2Isabelle
  imports Main
begin

section \<open>Data model\<close>

text \<open>
  A feature is one record of the vector-tile layer. Its \<open>properties\<close> object is read
  through six keys (\<open>NOM_ENT\<close>, \<open>NOM_MUN\<close>, \<open>NOM_COM\<close>, \<open>NOM_LOC\<close>, \<open>Pueblo\<close>, \<open>ID\<close>)
  and the feature itself carries an optional \<open>id\<close>. A property that is absent
  (\<open>undefined\<close> or \<open>null\<close>, or a feature without \<open>properties\<close>) is \<open>None\<close>; a present
  property is the string it holds. The two identifiers are kept as the text that
  \<open>String(...)\<close> gives for them. Facet properties that are not strings are outside
  the model.
\<close>

record Feature =
  NOM_ENT :: "string option"
  NOM_MUN :: "string option"
  NOM_COM :: "string option"
  NOM_LOC :: "string option"
  Pueblo :: "string option"
  ID :: "string option"
  fid :: "string option"

text \<open>\<open>interface FilterState\<close>: the four facets, the empty string meaning "not set".\<close>

record FilterState =
  entidad :: string
  municipio :: string
  comunidad :: string
  pueblo :: string

text \<open>
  \<open>interface ExtractedData\<close>. The second map is keyed by the joined text
  \<open>entidad|municipio\<close>, as the source builds it.
\<close>

record ExtractedData =
  entidades :: "string set"
  municipiosPorEntidad :: "string \<rightharpoonup> string set"
  comunidadesPorMunicipio :: "string \<rightharpoonup> string set"
  pueblos :: "string set"
  features :: "Feature list"

text \<open>\<open>keyof FilterState\<close>: the facet an edit addresses.\<close>

datatype filter_field = F_entidad | F_municipio | F_comunidad | F_pueblo

subsection \<open>JavaScript primitives\<close>

text \<open>Truthiness of an optional string: present and not the empty string.\<close>

definition truthy :: "string option \<Rightarrow> bool" where
  "truthy v = (case v of None \<Rightarrow> False | Some s \<Rightarrow> s \<noteq> [])"

text \<open>\<open>a || b\<close> on optional strings.\<close>

definition js_or :: "string option \<Rightarrow> string option \<Rightarrow> string option" where
  "js_or a b = (if truthy a then a else b)"

text \<open>
  \<open>String.prototype.trim\<close>. Strings are UTF-8 text; \<open>whiteSpace\<close> lists the encodings
  of the code points that \<open>trim\<close> removes (the white space and line terminator
  code points of the language: U+0009 to U+000D, U+0020, U+00A0, U+1680, U+2000 to
  U+200A, U+2028, U+2029, U+202F, U+205F, U+3000, U+FEFF).
\<close>

definition whiteSpace :: "string list" where
  "whiteSpace =
    [[CHR 0x09], [CHR 0x0A], [CHR 0x0B], [CHR 0x0C], [CHR 0x0D], [CHR 0x20],
     [CHR 0xC2, CHR 0xA0], [CHR 0xE1, CHR 0x9A, CHR 0x80],
     [CHR 0xE2, CHR 0x80, CHR 0x80], [CHR 0xE2, CHR 0x80, CHR 0x81],
     [CHR 0xE2, CHR 0x80, CHR 0x82], [CHR 0xE2, CHR 0x80, CHR 0x83],
     [CHR 0xE2, CHR 0x80, CHR 0x84], [CHR 0xE2, CHR 0x80, CHR 0x85],
     [CHR 0xE2, CHR 0x80, CHR 0x86], [CHR 0xE2, CHR 0x80, CHR 0x87],
     [CHR 0xE2, CHR 0x80, CHR 0x88], [CHR 0xE2, CHR 0x80, CHR 0x89],
     [CHR 0xE2, CHR 0x80, CHR 0x8A], [CHR 0xE2, CHR 0x80, CHR 0xA8],
     [CHR 0xE2, CHR 0x80, CHR 0xA9], [CHR 0xE2, CHR 0x80, CHR 0xAF],
     [CHR 0xE2, CHR 0x81, CHR 0x9F], [CHR 0xE3, CHR 0x80, CHR 0x80],
     [CHR 0xEF, CHR 0xBB, CHR 0xBF]]"

text \<open>Remove one leading element of \<open>ws\<close> from a string, if it starts with one.\<close>

definition stripOne :: "string list \<Rightarrow> string \<Rightarrow> string option" where
  "stripOne ws s =
    (case find (\<lambda>w. take (length w) s = w) ws of
       None \<Rightarrow> None
     | Some w \<Rightarrow> Some (drop (length w) s))"

text \<open>Remove leading elements of \<open>ws\<close>, at most \<open>n\<close> of them.\<close>

primrec stripMany :: "nat \<Rightarrow> string list \<Rightarrow> string \<Rightarrow> string" where
  "stripMany 0 ws s = s"
| "stripMany (Suc n) ws s =
    (case stripOne ws s of None \<Rightarrow> s | Some r \<Rightarrow> stripMany n ws r)"

text \<open>
  A string of \<open>n\<close> bytes starts with at most \<open>n\<close> white space code points, so
  \<open>length s\<close> rounds remove them all (\<open>stripMany_complete\<close> below).
\<close>

definition trimStart :: "string \<Rightarrow> string" where
  "trimStart s = stripMany (length s) whiteSpace s"

definition trimEnd :: "string \<Rightarrow> string" where
  "trimEnd s = rev (stripMany (length s) (map rev whiteSpace) (rev s))"

definition trim :: "string \<Rightarrow> string" where
  "trim s = trimEnd (trimStart s)"

text \<open>\<open>props.NOM_COM || props.NOM_LOC\<close>: the community name with its locality fallback.\<close>

definition featureComunidad :: "Feature \<Rightarrow> string option" where
  "featureComunidad f = js_or (NOM_COM f) (NOM_LOC f)"

text \<open>\<open>{ ...currentFilters, [field]: value }\<close>\<close>

fun set_field :: "filter_field \<Rightarrow> string \<Rightarrow> FilterState \<Rightarrow> FilterState" where
  "set_field F_entidad v s = s\<lparr>entidad := v\<rparr>"
| "set_field F_municipio v s = s\<lparr>municipio := v\<rparr>"
| "set_field F_comunidad v s = s\<lparr>comunidad := v\<rparr>"
| "set_field F_pueblo v s = s\<lparr>pueblo := v\<rparr>"

fun get_field :: "filter_field \<Rightarrow> FilterState \<Rightarrow> string" where
  "get_field F_entidad s = entidad s"
| "get_field F_municipio s = municipio s"
| "get_field F_comunidad s = comunidad s"
| "get_field F_pueblo s = pueblo s"

definition emptyFilters :: FilterState where
  "emptyFilters = \<lparr>entidad = [], municipio = [], comunidad = [], pueblo = []\<rparr>"

section \<open>The reconciler: \<open>synchronizeFilters\<close>\<close>

text \<open>
  Branch \<open>field === 'entidad'\<close>: municipality and community are cleared; a selected
  people value is kept only when some feature has the new state and that people.
\<close>

definition sync_entidad :: "ExtractedData \<Rightarrow> string \<Rightarrow> FilterState \<Rightarrow> FilterState" where
  "sync_entidad d v nf0 =
    (let nf = nf0\<lparr>municipio := [], comunidad := []\<rparr> in
     if pueblo nf \<noteq> [] then
       (if list_ex (\<lambda>f. NOM_ENT f = Some v \<and> Pueblo f = Some (pueblo nf)) (features d)
        then nf else nf\<lparr>pueblo := []\<rparr>)
     else nf)"

text \<open>Branch \<open>field === 'municipio'\<close>.\<close>

definition sync_municipio :: "ExtractedData \<Rightarrow> string \<Rightarrow> FilterState \<Rightarrow> FilterState" where
  "sync_municipio d v nf0 =
    (let nf = nf0\<lparr>comunidad := []\<rparr> in
     if pueblo nf \<noteq> [] \<and> entidad nf \<noteq> [] then
       (if list_ex (\<lambda>f. NOM_ENT f = Some (entidad nf) \<and> NOM_MUN f = Some v \<and>
                         Pueblo f = Some (pueblo nf)) (features d)
        then nf else nf\<lparr>pueblo := []\<rparr>)
     else nf)"

text \<open>Branch \<open>field === 'comunidad'\<close>.\<close>

definition sync_comunidad :: "ExtractedData \<Rightarrow> string \<Rightarrow> FilterState \<Rightarrow> FilterState" where
  "sync_comunidad d v nf =
    (if pueblo nf \<noteq> [] \<and> entidad nf \<noteq> [] \<and> municipio nf \<noteq> [] then
       (if list_ex (\<lambda>f. NOM_ENT f = Some (entidad nf) \<and> NOM_MUN f = Some (municipio nf) \<and>
                         featureComunidad f = Some v \<and> Pueblo f = Some (pueblo nf)) (features d)
        then nf else nf\<lparr>pueblo := []\<rparr>)
     else nf)"

text \<open>
  Block \<open>field === 'pueblo'\<close>. A new value that is empty or blank leaves the
  hierarchical facets alone. Otherwise, when some hierarchical facet is set and no
  feature matches the set facets together with the new people value, the three
  checks run in order, each reading the selection as the previous one left it
  (\<open>newFilters.entidad\<close>, \<open>newFilters.municipio\<close>) next to the values captured before
  (\<open>entidad\<close>, \<open>municipio\<close>, \<open>comunidad\<close>).
\<close>

definition sync_pueblo :: "ExtractedData \<Rightarrow> string \<Rightarrow> FilterState \<Rightarrow> FilterState" where
  "sync_pueblo d v nf =
    (if v \<noteq> [] \<and> trim v \<noteq> [] then
       (let e = entidad nf; m = municipio nf; c = comunidad nf in
        if e \<noteq> [] \<or> m \<noteq> [] \<or> c \<noteq> [] then
          (if list_ex (\<lambda>f. (e = [] \<or> NOM_ENT f = Some e) \<and> (m = [] \<or> NOM_MUN f = Some m) \<and>
                            (c = [] \<or> featureComunidad f = Some c) \<and> Pueblo f = Some v)
                (features d)
           then nf
           else
             (let nf1 = (if e \<noteq> [] then
                           (if list_ex (\<lambda>f. NOM_ENT f = Some e \<and> Pueblo f = Some v) (features d)
                            then nf
                            else nf\<lparr>entidad := [], municipio := [], comunidad := []\<rparr>)
                         else nf);
                  nf2 = (if entidad nf1 \<noteq> [] \<and> m \<noteq> [] then
                           (if list_ex (\<lambda>f. NOM_ENT f = Some (entidad nf1) \<and>
                                             NOM_MUN f = Some m \<and> Pueblo f = Some v) (features d)
                            then nf1
                            else nf1\<lparr>municipio := [], comunidad := []\<rparr>)
                         else nf1);
                  nf3 = (if entidad nf2 \<noteq> [] \<and> municipio nf2 \<noteq> [] \<and> c \<noteq> [] then
                           (if list_ex (\<lambda>f. NOM_ENT f = Some (entidad nf2) \<and>
                                             NOM_MUN f = Some (municipio nf2) \<and>
                                             featureComunidad f = Some c \<and>
                                             Pueblo f = Some v) (features d)
                            then nf2
                            else nf2\<lparr>comunidad := []\<rparr>)
                         else nf2)
              in nf3))
        else nf)
     else nf)"

definition hasAnyFilter :: "FilterState \<Rightarrow> bool" where
  "hasAnyFilter nf = (entidad nf \<noteq> [] \<or> municipio nf \<noteq> [] \<or> comunidad nf \<noteq> [] \<or> pueblo nf \<noteq> [])"

text \<open>
  \<open>synchronizeFilters(field, value, currentFilters)\<close>, with the \<open>extractedData\<close> it
  closes over as first argument (\<open>None\<close> is \<open>null\<close>: no data loaded yet).
\<close>

definition synchronizeFilters ::
  "ExtractedData option \<Rightarrow> filter_field \<Rightarrow> string \<Rightarrow> FilterState \<Rightarrow> FilterState" where
  "synchronizeFilters extractedData fld v currentFilters =
    (case extractedData of
       None \<Rightarrow> currentFilters
     | Some d \<Rightarrow>
        (let nf0 = set_field fld v currentFilters;
             nf1 = (case fld of
                      F_entidad \<Rightarrow> sync_entidad d v nf0
                    | F_municipio \<Rightarrow> sync_municipio d v nf0
                    | F_comunidad \<Rightarrow> sync_comunidad d v nf0
                    | F_pueblo \<Rightarrow> nf0);
             nf2 = (if fld = F_pueblo then sync_pueblo d v nf1 else nf1)
         in if \<not> hasAnyFilter nf2 then emptyFilters else nf2))"

section \<open>The sidebar count: \<open>getFilteredCount\<close>\<close>

text \<open>
  The predicate of the \<open>filter\<close> call: a facet constrains only when it is non-empty
  and not blank; the community facet is compared with the community-or-locality
  fallback of the feature.
\<close>

definition countPredicate :: "FilterState \<Rightarrow> Feature \<Rightarrow> bool" where
  "countPredicate filters f =
    (if entidad filters \<noteq> [] \<and> trim (entidad filters) \<noteq> [] \<and> NOM_ENT f \<noteq> Some (entidad filters)
       then False
     else if municipio filters \<noteq> [] \<and> trim (municipio filters) \<noteq> [] \<and>
             NOM_MUN f \<noteq> Some (municipio filters)
       then False
     else if comunidad filters \<noteq> [] \<and> trim (comunidad filters) \<noteq> [] \<and>
             featureComunidad f \<noteq> Some (comunidad filters)
       then False
     else if pueblo filters \<noteq> [] \<and> trim (pueblo filters) \<noteq> [] \<and> Pueblo f \<noteq> Some (pueblo filters)
       then False
     else True)"

definition getFilteredCount :: "ExtractedData option \<Rightarrow> FilterState \<Rightarrow> nat" where
  "getFilteredCount extractedData filters =
    (case extractedData of
       None \<Rightarrow> 0
     | Some d \<Rightarrow> length (filter (countPredicate filters) (features d)))"

section \<open>The validation pass: \<open>validateFilters\<close>\<close>

text \<open>\<open>map.get(key) || new Set()\<close>: the set stored under a key, empty when there is none.\<close>

definition lookupSet :: "(string \<rightharpoonup> string set) \<Rightarrow> string \<Rightarrow> string set" where
  "lookupSet m k = (case m k of None \<Rightarrow> {} | Some S \<Rightarrow> S)"

text \<open>The key \<open>`${entidad}|${municipio}`\<close> of \<open>comunidadesPorMunicipio\<close>.\<close>

definition joinKey :: "string \<Rightarrow> string \<Rightarrow> string" where
  "joinKey e m = e @ ''|'' @ m"

text \<open>
  The four checks run in sequence on \<open>validatedFilters\<close>, each reading what the
  previous ones left. The checks are memberships in the index's sets.
\<close>

definition validateFilters :: "ExtractedData option \<Rightarrow> FilterState \<Rightarrow> FilterState" where
  "validateFilters extractedData currentFilters =
    (case extractedData of
       None \<Rightarrow> currentFilters
     | Some d \<Rightarrow>
        (let v0 = currentFilters;
             v1 = (if entidad v0 \<noteq> [] \<and> entidad v0 \<notin> entidades d
                   then v0\<lparr>entidad := [], municipio := [], comunidad := []\<rparr> else v0);
             v2 = (if entidad v1 \<noteq> [] \<and> municipio v1 \<noteq> [] then
                     (if municipio v1 \<notin> lookupSet (municipiosPorEntidad d) (entidad v1)
                      then v1\<lparr>municipio := [], comunidad := []\<rparr> else v1)
                   else v1);
             v3 = (if entidad v2 \<noteq> [] \<and> municipio v2 \<noteq> [] \<and> comunidad v2 \<noteq> [] then
                     (if comunidad v2 \<notin> lookupSet (comunidadesPorMunicipio d)
                                          (joinKey (entidad v2) (municipio v2))
                      then v2\<lparr>comunidad := []\<rparr> else v2)
                   else v2);
             v4 = (if pueblo v3 \<noteq> [] \<and> pueblo v3 \<notin> pueblos d
                   then v3\<lparr>pueblo := []\<rparr> else v3)
         in v4))"

section \<open>The option lists\<close>

text \<open>
  Each option list is modelled by the set of its elements: the source sorts the
  values with \<open>localeCompare(_, 'es')\<close>, and the collation order is outside the model.
  \<open>filters\<close> is the current selection.
\<close>

definition sortedEntidades :: "ExtractedData option \<Rightarrow> FilterState \<Rightarrow> string set" where
  "sortedEntidades extractedData filters =
    (case extractedData of
       None \<Rightarrow> {}
     | Some d \<Rightarrow>
        if pueblo filters \<noteq> [] then
          set (List.map_filter
                (\<lambda>f. if Pueblo f = Some (pueblo filters) \<and> truthy (NOM_ENT f)
                      then NOM_ENT f else None) (features d))
        else entidades d)"

definition sortedMunicipios :: "ExtractedData option \<Rightarrow> FilterState \<Rightarrow> string set" where
  "sortedMunicipios extractedData filters =
    (case extractedData of
       None \<Rightarrow> {}
     | Some d \<Rightarrow>
        if entidad filters = [] then {}
        else if pueblo filters \<noteq> [] then
          set (List.map_filter
                (\<lambda>f. if Pueblo f = Some (pueblo filters) \<and> NOM_ENT f = Some (entidad filters) \<and>
                         truthy (NOM_MUN f)
                      then NOM_MUN f else None) (features d))
        else lookupSet (municipiosPorEntidad d) (entidad filters))"

definition sortedComunidades :: "ExtractedData option \<Rightarrow> FilterState \<Rightarrow> string set" where
  "sortedComunidades extractedData filters =
    (case extractedData of
       None \<Rightarrow> {}
     | Some d \<Rightarrow>
        if entidad filters = [] \<or> municipio filters = [] then {}
        else if pueblo filters \<noteq> [] then
          set (List.map_filter
                (\<lambda>f. if Pueblo f = Some (pueblo filters) \<and> NOM_ENT f = Some (entidad filters) \<and>
                         NOM_MUN f = Some (municipio filters) \<and> truthy (featureComunidad f)
                      then featureComunidad f else None) (features d))
        else lookupSet (comunidadesPorMunicipio d) (joinKey (entidad filters) (municipio filters)))"

definition filteredPueblosByHierarchy :: "ExtractedData option \<Rightarrow> FilterState \<Rightarrow> string set" where
  "filteredPueblosByHierarchy extractedData filters =
    (case extractedData of
       None \<Rightarrow> {}
     | Some d \<Rightarrow>
        (let e = entidad filters; m = municipio filters; c = comunidad filters in
         if e = [] \<and> m = [] \<and> c = [] then pueblos d
         else
           set (List.map_filter
                 (\<lambda>f. if (e = [] \<or> NOM_ENT f = Some e) \<and> (m = [] \<or> NOM_MUN f = Some m) \<and>
                          (c = [] \<or> featureComunidad f = Some c) \<and> truthy (Pueblo f)
                       then Pueblo f else None) (features d))))"

section \<open>The map layer: \<open>applyMapFilters\<close> and \<open>applyFilterZoom\<close>\<close>

text \<open>
  The filter expressions that \<open>applyMapFilters\<close> builds for the rendering library:
  \<open>['==', ['get', key], value]\<close>, \<open>['any', ...]\<close> and \<open>['all', ...]\<close>.
\<close>

datatype filter_expr = Eq_get string string | Any "filter_expr list" | All "filter_expr list"

definition ENT_KEY :: string where "ENT_KEY = ''NOM_ENT''"
definition MUN_KEY :: string where "MUN_KEY = ''NOM_MUN''"
definition COM_KEY :: string where "COM_KEY = ''NOM_COM''"
definition PUE_KEY :: string where "PUE_KEY = ''Pueblo''"
definition LOC_KEY :: string where "LOC_KEY = ''NOM_LOC''"

text \<open>\<open>['get', key]\<close> on a feature: the property, \<open>None\<close> (null) when it is absent.\<close>

definition get_property :: "string \<Rightarrow> Feature \<Rightarrow> string option" where
  "get_property k f =
    (if k = ENT_KEY then NOM_ENT f
     else if k = MUN_KEY then NOM_MUN f
     else if k = COM_KEY then NOM_COM f
     else if k = LOC_KEY then NOM_LOC f
     else if k = PUE_KEY then Pueblo f
     else if k = ''ID'' then ID f
     else None)"

text \<open>How the rendering library evaluates an expression on a feature.\<close>

fun eval_expr :: "Feature \<Rightarrow> filter_expr \<Rightarrow> bool" where
  "eval_expr f (Eq_get k v) = (get_property k f = Some v)"
| "eval_expr f (Any es) = list_ex (eval_expr f) es"
| "eval_expr f (All es) = list_all (eval_expr f) es"

text \<open>
  The \<open>filterArray\<close> that \<open>applyMapFilters\<close> hands to \<open>map.setFilter\<close>; \<open>None\<close> is
  \<open>null\<close>, which shows every record. The map and its layer are taken to exist.
\<close>

definition applyMapFilters :: "FilterState \<Rightarrow> filter_expr option" where
  "applyMapFilters filters =
    (let allFiltersEmpty = (trim (entidad filters) = [] \<and> trim (municipio filters) = [] \<and>
                            trim (comunidad filters) = [] \<and> trim (pueblo filters) = [])
     in if allFiltersEmpty then None
        else
          (let c1 = (if entidad filters \<noteq> [] \<and> trim (entidad filters) \<noteq> []
                     then [Eq_get ENT_KEY (entidad filters)] else []);
               c2 = (if municipio filters \<noteq> [] \<and> trim (municipio filters) \<noteq> []
                     then c1 @ [Eq_get MUN_KEY (municipio filters)] else c1);
               c3 = (if comunidad filters \<noteq> [] \<and> trim (comunidad filters) \<noteq> []
                     then c2 @ [Any [Eq_get COM_KEY (comunidad filters),
                                     Eq_get LOC_KEY (comunidad filters)]] else c2);
               conditions = (if pueblo filters \<noteq> [] \<and> trim (pueblo filters) \<noteq> []
                     then c3 @ [Eq_get PUE_KEY (pueblo filters)] else c3)
           in case conditions of
                [] \<Rightarrow> None
              | [c] \<Rightarrow> Some c
              | _ \<Rightarrow> Some (All conditions)))"

text \<open>A feature is drawn when there is no filter or the filter evaluates to true on it.\<close>

definition layerShows :: "filter_expr option \<Rightarrow> Feature \<Rightarrow> bool" where
  "layerShows filterArray f = (case filterArray of None \<Rightarrow> True | Some e \<Rightarrow> eval_expr f e)"

record Padding =
  pad_top :: nat
  pad_bottom :: nat
  pad_left :: nat
  pad_right :: nat

record FitBoundsOptions =
  padding :: Padding
  maxZoom :: nat
  duration :: nat
  essential :: bool

text \<open>The predicate of the \<open>filter\<close> call in \<open>applyFilterZoom\<close> (plain truthiness, no trim).\<close>

definition zoomPredicate :: "FilterState \<Rightarrow> Feature \<Rightarrow> bool" where
  "zoomPredicate filters f =
    (if entidad filters \<noteq> [] \<and> NOM_ENT f \<noteq> Some (entidad filters) then False
     else if municipio filters \<noteq> [] \<and> NOM_MUN f \<noteq> Some (municipio filters) then False
     else if comunidad filters \<noteq> [] \<and> featureComunidad f \<noteq> Some (comunidad filters) then False
     else if pueblo filters \<noteq> [] \<and> Pueblo f \<noteq> Some (pueblo filters) then False
     else True)"

text \<open>
  The choice of \<open>padding\<close> and \<open>maxZoom\<close> in \<open>applyFilterZoom\<close>: the initial values,
  overwritten by the first branch of the chain that applies.
\<close>

definition zoomTier :: "FilterState \<Rightarrow> Padding \<times> nat" where
  "zoomTier filters =
    (let padding0 = \<lparr>pad_top = 50, pad_bottom = 50, pad_left = 50, pad_right = 350\<rparr>;
         maxZoom0 = 16
     in if comunidad filters \<noteq> [] then
          (\<lparr>pad_top = 100, pad_bottom = 100, pad_left = 100, pad_right = 400\<rparr>, 16)
        else if municipio filters \<noteq> [] then
          (\<lparr>pad_top = 80, pad_bottom = 80, pad_left = 80, pad_right = 380\<rparr>, 12)
        else if entidad filters \<noteq> [] then
          (\<lparr>pad_top = 60, pad_bottom = 60, pad_left = 60, pad_right = 360\<rparr>, 9)
        else (padding0, maxZoom0))"

text \<open>
  \<open>applyFilterZoom\<close>: the options of the \<open>map.fitBounds\<close> call, \<open>None\<close> when the
  function returns without calling it (no data, or no feature passes the
  predicate). The bounds argument, built from point coordinates, is outside the
  model; the map is taken to exist.
\<close>

definition applyFilterZoom :: "ExtractedData option \<Rightarrow> FilterState \<Rightarrow> FitBoundsOptions option" where
  "applyFilterZoom extractedData filters =
    (case extractedData of
       None \<Rightarrow> None
     | Some d \<Rightarrow>
        if length (filter (zoomPredicate filters) (features d)) = 0 then None
        else
          (case zoomTier filters of
             (p, z) \<Rightarrow> Some \<lparr>padding = p, maxZoom = z, duration = 1500, essential = True\<rparr>))"

section \<open>The index builder: \<open>extractLayerData\<close>\<close>

subsection \<open>De-duplication\<close>

text \<open>
  \<open>idVal = f?.properties?.[ID_KEY] ?? f?.id\<close> and
  \<open>id = idVal != null ? String(idVal) : ''\<close>.
\<close>

definition recordId :: "Feature \<Rightarrow> string" where
  "recordId f =
    (let idVal = (case ID f of Some v \<Rightarrow> Some v | None \<Rightarrow> fid f)
     in case idVal of Some v \<Rightarrow> v | None \<Rightarrow> [])"

text \<open>
  The \<open>filter\<close> call that computes \<open>uniqueFeatures\<close>, with the set \<open>seen\<close> it updates
  passed along.
\<close>

fun uniqueFrom :: "string set \<Rightarrow> Feature list \<Rightarrow> Feature list" where
  "uniqueFrom seen [] = []"
| "uniqueFrom seen (f # fs) =
    (let i = recordId f in
     if i = [] then f # uniqueFrom seen fs
     else if i \<in> seen then uniqueFrom seen fs
     else f # uniqueFrom (insert i seen) fs)"

definition uniqueFeatures :: "Feature list \<Rightarrow> Feature list" where
  "uniqueFeatures allFeatures = uniqueFrom {} allFeatures"

subsection \<open>The lookup structures\<close>

text \<open>
  The four values that the builder reads from a feature:
  \<open>String(props[KEY] || '').trim()\<close>, the community with its locality fallback.
\<close>

definition stringOr :: "string option \<Rightarrow> string" where
  "stringOr v = (case js_or v (Some []) of None \<Rightarrow> [] | Some s \<Rightarrow> s)"

definition idxEntidad :: "Feature \<Rightarrow> string" where
  "idxEntidad f = trim (stringOr (NOM_ENT f))"

definition idxMunicipio :: "Feature \<Rightarrow> string" where
  "idxMunicipio f = trim (stringOr (NOM_MUN f))"

definition idxComunidad :: "Feature \<Rightarrow> string" where
  "idxComunidad f = trim (stringOr (js_or (NOM_COM f) (NOM_LOC f)))"

definition idxPueblo :: "Feature \<Rightarrow> string" where
  "idxPueblo f = trim (stringOr (Pueblo f))"

text \<open>
  The four accumulators are plain objects created by \<open>{}\<close>. \<open>entidadesObj\<close> and
  \<open>pueblosObj\<close> are used as sets of keys; \<open>municipiosObj\<close> and \<open>comunidadesObj\<close> map
  a key to an array without repetitions.
\<close>

record BuildState =
  entidadesObj :: "string set"
  municipiosObj :: "string \<rightharpoonup> string list"
  comunidadesObj :: "string \<rightharpoonup> string list"
  pueblosObj :: "string set"

text \<open>
  A plain object inherits the properties of \<open>Object.prototype\<close>. Reading one of
  these names from \<open>municipiosObj\<close> before it was assigned gives the inherited
  value, which is truthy and has no \<open>includes\<close> method: the call throws a
  \<open>TypeError\<close>. The keys of \<open>comunidadesObj\<close> contain \<open>|\<close> and are never such a name.
\<close>

definition objectPrototypeKeys :: "string list" where
  "objectPrototypeKeys =
    [''constructor'', ''__defineGetter__'', ''__defineSetter__'', ''hasOwnProperty'',
     ''__lookupGetter__'', ''__lookupSetter__'', ''isPrototypeOf'', ''propertyIsEnumerable'',
     ''toString'', ''valueOf'', ''__proto__'', ''toLocaleString'']"

datatype js_error = TypeError

text \<open>
  \<open>obj[key] = true\<close> followed later by \<open>Object.keys(obj)\<close>: the key becomes an own
  property, except \<open>__proto__\<close>, whose assignment of a non-object is ignored.
\<close>

definition setTrue :: "string \<Rightarrow> string set \<Rightarrow> string set" where
  "setTrue k obj = (if k = ''__proto__'' then obj else insert k obj)"

text \<open>\<open>if (!arr.includes(x)) arr.push(x)\<close>\<close>

definition pushUnique :: "string list \<Rightarrow> string \<Rightarrow> string list" where
  "pushUnique arr x = (if x \<in> set arr then arr else arr @ [x])"

text \<open>\<open>if (!obj[key]) obj[key] = []\<close> and the read of \<open>obj[key]\<close> that follows.\<close>

definition arrayAt :: "(string \<rightharpoonup> string list) \<Rightarrow> string \<Rightarrow> string list" where
  "arrayAt obj k = (case obj k of None \<Rightarrow> [] | Some arr \<Rightarrow> arr)"

text \<open>The body of \<open>uniqueFeatures.forEach\<close>, on one feature.\<close>

definition indexFeature :: "Feature \<Rightarrow> BuildState \<Rightarrow> js_error + BuildState" where
  "indexFeature f st =
    (let entidad = idxEntidad f; municipio = idxMunicipio f;
         comunidad = idxComunidad f; pueblo = idxPueblo f
     in case
          (if entidad \<noteq> [] then
             (let st1 = st\<lparr>entidadesObj := setTrue entidad (entidadesObj st)\<rparr> in
              if municipio \<noteq> [] then
                (if entidad \<in> set objectPrototypeKeys then Inl TypeError
                 else
                   (let st2 = st1\<lparr>municipiosObj := (municipiosObj st1)
                                  (entidad \<mapsto> pushUnique (arrayAt (municipiosObj st1) entidad) municipio)\<rparr>;
                        key = joinKey entidad municipio
                    in if comunidad \<noteq> [] then
                         Inr (st2\<lparr>comunidadesObj := (comunidadesObj st2)
                                (key \<mapsto> pushUnique (arrayAt (comunidadesObj st2) key) comunidad)\<rparr>)
                       else Inr st2))
              else Inr st1)
           else Inr st)
        of
          Inl e \<Rightarrow> Inl e
        | Inr st3 \<Rightarrow>
            Inr (if pueblo \<noteq> [] then st3\<lparr>pueblosObj := setTrue pueblo (pueblosObj st3)\<rparr> else st3))"

text \<open>The \<open>forEach\<close> loop: an exception ends it.\<close>

fun indexFeatures :: "Feature list \<Rightarrow> BuildState \<Rightarrow> js_error + BuildState" where
  "indexFeatures [] st = Inr st"
| "indexFeatures (f # fs) st =
    (case indexFeature f st of Inl e \<Rightarrow> Inl e | Inr st' \<Rightarrow> indexFeatures fs st')"

definition emptyBuildState :: BuildState where
  "emptyBuildState =
    \<lparr>entidadesObj = {}, municipiosObj = Map.empty, comunidadesObj = Map.empty, pueblosObj = {}\<rparr>"

text \<open>
  \<open>extractLayerData\<close> on the features that \<open>querySourceFeatures\<close> returned: the
  \<open>data\<close> it stores in \<open>extractedDataRef\<close>, or the exception that its \<open>catch\<close> block
  receives (nothing is stored then). The layer is taken to exist.
\<close>

definition extractLayerData :: "Feature list \<Rightarrow> js_error + ExtractedData" where
  "extractLayerData allFeatures =
    (let uniqueFeatures = uniqueFeatures allFeatures in
     case indexFeatures uniqueFeatures emptyBuildState of
       Inl e \<Rightarrow> Inl e
     | Inr st \<Rightarrow>
         Inr \<lparr>entidades = entidadesObj st,
              municipiosPorEntidad = map_option set \<circ> municipiosObj st,
              comunidadesPorMunicipio = map_option set \<circ> comunidadesObj st,
              pueblos = pueblosObj st,
              features = uniqueFeatures\<rparr>)"

text \<open>The argument of \<open>onDataLoaded\<close>: the data reaches the sidebar when it has a state.\<close>

definition dataLoaded :: "Feature list \<Rightarrow> ExtractedData option" where
  "dataLoaded allFeatures =
    (case extractLayerData allFeatures of
       Inl e \<Rightarrow> None
     | Inr d \<Rightarrow> if entidades d \<noteq> {} then Some d else None)"

section \<open>Predicates of the specification and the example index\<close>

text \<open>
  The containment invariant of a selection against an index: a municipality needs
  a state under which the index lists it; a community needs such a state and
  municipality, and the index must list it under their pair.
\<close>

definition hierarchyInvariant :: "ExtractedData \<Rightarrow> FilterState \<Rightarrow> bool" where
  "hierarchyInvariant d s =
    ((municipio s = [] \<or>
        (entidad s \<noteq> [] \<and> municipio s \<in> lookupSet (municipiosPorEntidad d) (entidad s))) \<and>
     (comunidad s = [] \<or>
        (entidad s \<noteq> [] \<and> municipio s \<noteq> [] \<and>
         municipio s \<in> lookupSet (municipiosPorEntidad d) (entidad s) \<and>
         comunidad s \<in> lookupSet (comunidadesPorMunicipio d) (joinKey (entidad s) (municipio s)))))"

text \<open>
  An edit whose new value the index lists under the selection it is applied to:
  a municipality under the selected state, a community under the selected state
  and municipality. Clearing a facet, and any edit of state or people, qualify.
\<close>

definition listedEdit :: "ExtractedData \<Rightarrow> FilterState \<Rightarrow> filter_field \<Rightarrow> string \<Rightarrow> bool" where
  "listedEdit d s fld v =
    (case fld of
       F_entidad \<Rightarrow> True
     | F_municipio \<Rightarrow>
         v = [] \<or> (entidad s \<noteq> [] \<and> v \<in> lookupSet (municipiosPorEntidad d) (entidad s))
     | F_comunidad \<Rightarrow>
         v = [] \<or> (municipio s \<noteq> [] \<and>
                   v \<in> lookupSet (comunidadesPorMunicipio d) (joinKey (entidad s) (municipio s)))
     | F_pueblo \<Rightarrow> True)"

text \<open>Nesting of the hierarchical facets: no municipality without a state, no community
  without a municipality.\<close>

definition nestedSelection :: "FilterState \<Rightarrow> bool" where
  "nestedSelection s =
    ((municipio s = [] \<or> entidad s \<noteq> []) \<and> (comunidad s = [] \<or> municipio s \<noteq> []))"

text \<open>
  The top-down rule for a people edit, in the words of the specification: the first
  of the three conflicts that applies decides what is cleared.
\<close>

definition peopleEditTopDown :: "ExtractedData \<Rightarrow> string \<Rightarrow> FilterState \<Rightarrow> FilterState" where
  "peopleEditTopDown d p s =
    (if entidad s \<noteq> [] \<and>
        \<not> list_ex (\<lambda>f. NOM_ENT f = Some (entidad s) \<and> Pueblo f = Some p) (features d)
     then s\<lparr>entidad := [], municipio := [], comunidad := [], pueblo := p\<rparr>
     else if municipio s \<noteq> [] \<and>
        \<not> list_ex (\<lambda>f. NOM_ENT f = Some (entidad s) \<and> NOM_MUN f = Some (municipio s) \<and>
                        Pueblo f = Some p) (features d)
     then s\<lparr>municipio := [], comunidad := [], pueblo := p\<rparr>
     else if comunidad s \<noteq> [] \<and>
        \<not> list_ex (\<lambda>f. NOM_ENT f = Some (entidad s) \<and> NOM_MUN f = Some (municipio s) \<and>
                        featureComunidad f = Some (comunidad s) \<and> Pueblo f = Some p) (features d)
     then s\<lparr>comunidad := [], pueblo := p\<rparr>
     else s\<lparr>pueblo := p\<rparr>)"

text \<open>
  The sets of the index that the option lists read for a selection hold only values
  carried by features. The state list reads the index when no people is selected,
  the municipality list when moreover a state is selected, the community list when
  moreover a municipality is selected: a listed state is then the state of a
  feature, a municipality listed under the selected state belongs to a feature of
  that state, a community listed under the selected pair to a feature of that
  pair. The people list reads the index when no hierarchical facet is set: a
  listed people is then the people of a feature.
\<close>

definition indexBacked :: "ExtractedData \<Rightarrow> FilterState \<Rightarrow> bool" where
  "indexBacked d s =
    ((pueblo s \<noteq> [] \<or>
        (\<forall>e \<in> entidades d. list_ex (\<lambda>f. NOM_ENT f = Some e) (features d))) \<and>
     (pueblo s \<noteq> [] \<or> entidad s = [] \<or>
        (\<forall>m \<in> lookupSet (municipiosPorEntidad d) (entidad s).
           list_ex (\<lambda>f. NOM_ENT f = Some (entidad s) \<and> NOM_MUN f = Some m) (features d))) \<and>
     (pueblo s \<noteq> [] \<or> entidad s = [] \<or> municipio s = [] \<or>
        (\<forall>c \<in> lookupSet (comunidadesPorMunicipio d) (joinKey (entidad s) (municipio s)).
           list_ex (\<lambda>f. NOM_ENT f = Some (entidad s) \<and> NOM_MUN f = Some (municipio s) \<and>
                         featureComunidad f = Some c) (features d))) \<and>
     (entidad s \<noteq> [] \<or> municipio s \<noteq> [] \<or> comunidad s \<noteq> [] \<or>
        (\<forall>p \<in> pueblos d. list_ex (\<lambda>f. Pueblo f = Some p) (features d))))"

text \<open>
  A feature whose facet properties can be compared as they are: none has white
  space around it (each is its own \<open>trim\<close>), and the state name contains no \<open>|\<close>,
  the separator of the joined key.
\<close>

definition trimmedProperty :: "string option \<Rightarrow> bool" where
  "trimmedProperty v = (case v of None \<Rightarrow> True | Some x \<Rightarrow> trim x = x)"

definition cleanFeature :: "Feature \<Rightarrow> bool" where
  "cleanFeature f =
    (trimmedProperty (NOM_ENT f) \<and> trimmedProperty (NOM_MUN f) \<and> trimmedProperty (NOM_COM f) \<and>
     trimmedProperty (NOM_LOC f) \<and> trimmedProperty (Pueblo f) \<and>
     (case NOM_ENT f of None \<Rightarrow> True | Some x \<Rightarrow> CHR ''|'' \<notin> set x))"

text \<open>
  Every entry of the accumulators comes from a feature of \<open>F\<close>, read as the builder
  reads it.
\<close>

definition backedState :: "Feature set \<Rightarrow> BuildState \<Rightarrow> bool" where
  "backedState F st =
    ((\<forall>e \<in> entidadesObj st. e \<noteq> [] \<and> (\<exists>f \<in> F. idxEntidad f = e)) \<and>
     (\<forall>e arr. municipiosObj st e = Some arr \<longrightarrow>
        (\<forall>m \<in> set arr. e \<noteq> [] \<and> m \<noteq> [] \<and> (\<exists>f \<in> F. idxEntidad f = e \<and> idxMunicipio f = m))) \<and>
     (\<forall>k arr. comunidadesObj st k = Some arr \<longrightarrow>
        (\<forall>c \<in> set arr. c \<noteq> [] \<and>
           (\<exists>f \<in> F. idxEntidad f \<noteq> [] \<and> idxMunicipio f \<noteq> [] \<and>
                     joinKey (idxEntidad f) (idxMunicipio f) = k \<and> idxComunidad f = c))) \<and>
     (\<forall>p \<in> pueblosObj st. p \<noteq> [] \<and> (\<exists>f \<in> F. idxPueblo f = p)))"

text \<open>
  Position \<open>i\<close> of a feature list survives de-duplication started with the ids
  \<open>seen\<close>: the record has no id, or its id is neither in \<open>seen\<close> nor on an earlier
  record of the list.
\<close>

definition keptAt :: "string set \<Rightarrow> Feature list \<Rightarrow> nat \<Rightarrow> bool" where
  "keptAt seen fs i =
     (recordId (fs ! i) = [] \<or>
      (recordId (fs ! i) \<notin> seen \<and> (\<forall>j<i. recordId (fs ! j) \<noteq> recordId (fs ! i))))"

text \<open>The depth of a selection: its most specific hierarchical facet that is set.\<close>

datatype tier = TierComunidad | TierMunicipio | TierEntidad | TierNone

definition tierOf :: "FilterState \<Rightarrow> tier" where
  "tierOf s =
    (if comunidad s \<noteq> [] then TierComunidad
     else if municipio s \<noteq> [] then TierMunicipio
     else if entidad s \<noteq> [] then TierEntidad
     else TierNone)"

text \<open>
  The example of the specification: three features, none with a record id, and the
  index over them (the states, the municipalities by state, the communities by
  \<open>state|municipality\<close> key, the peoples, and the de-duplicated features).
  \<open>Juchitan\<close> is the UTF-8 text of the name, with its accented a.
\<close>

definition mkFeature :: "string \<Rightarrow> string \<Rightarrow> string \<Rightarrow> string \<Rightarrow> Feature" where
  "mkFeature e m c p =
    \<lparr>NOM_ENT = Some e, NOM_MUN = Some m, NOM_COM = Some c, NOM_LOC = None,
     Pueblo = Some p, ID = None, fid = None\<rparr>"

definition Juchitan :: string where
  "Juchitan = ''Juchit'' @ [CHR 0xC3, CHR 0xA1] @ ''n''"

definition exampleFeatures :: "Feature list" where
  "exampleFeatures =
    [mkFeature ''Oaxaca'' Juchitan ''X'' ''Zapoteco'',
     mkFeature ''Oaxaca'' Juchitan ''Y'' ''Zapoteco'',
     mkFeature ''Chiapas'' ''Z'' ''W'' ''Tzotzil'']"

definition exampleData :: ExtractedData where
  "exampleData =
    \<lparr>entidades = {''Oaxaca'', ''Chiapas''},
     municipiosPorEntidad = [''Oaxaca'' \<mapsto> {Juchitan}, ''Chiapas'' \<mapsto> {''Z''}],
     comunidadesPorMunicipio =
       [joinKey ''Oaxaca'' Juchitan \<mapsto> {''X'', ''Y''}, joinKey ''Chiapas'' ''Z'' \<mapsto> {''W''}],
     pueblos = {''Zapoteco'', ''Tzotzil''},
     features = uniqueFeatures exampleFeatures\<rparr>"

definition sel :: "string \<Rightarrow> string \<Rightarrow> string \<Rightarrow> string \<Rightarrow> FilterState" where
  "sel e m c p = \<lparr>entidad = e, municipio = m, comunidad = c, pueblo = p\<rparr>"

text \<open>
  A feature whose community name and locality name differ, and a raw feature list
  with a repeated record id and two identical records without id.
\<close>

definition twoNames :: Feature where
  "twoNames =
    \<lparr>NOM_ENT = Some ''Oaxaca'', NOM_MUN = Some Juchitan, NOM_COM = Some ''A'',
     NOM_LOC = Some ''B'', Pueblo = Some ''Zapoteco'', ID = None, fid = None\<rparr>"

definition withId :: "string \<Rightarrow> string \<Rightarrow> Feature" where
  "withId i c =
    \<lparr>NOM_ENT = Some ''Oaxaca'', NOM_MUN = Some Juchitan, NOM_COM = Some c,
     NOM_LOC = None, Pueblo = Some ''Zapoteco'', ID = Some i, fid = None\<rparr>"

definition rawFeatures :: "Feature list" where
  "rawFeatures =
    [withId ''7'' ''X'', mkFeature ''Chiapas'' ''Z'' ''W'' ''Tzotzil'', withId ''7'' ''Y'',
     mkFeature ''Chiapas'' ''Z'' ''W'' ''Tzotzil'']"

text \<open>
  Two further feature lists with the index that the builder derives from each: one
  whose state name has a leading space, and one where a state name contains the
  separator of the joined key, so that two pairs share a key.
\<close>

definition paddedFeatures :: "Feature list" where
  "paddedFeatures = [mkFeature '' Oaxaca'' Juchitan ''X'' ''Zapoteco'']"

definition paddedData :: ExtractedData where
  "paddedData =
    \<lparr>entidades = {''Oaxaca''},
     municipiosPorEntidad = [''Oaxaca'' \<mapsto> {Juchitan}],
     comunidadesPorMunicipio = [joinKey ''Oaxaca'' Juchitan \<mapsto> {''X''}],
     pueblos = {''Zapoteco''},
     features = paddedFeatures\<rparr>"

definition barFeatures :: "Feature list" where
  "barFeatures =
    [mkFeature ''a'' ''b|c'' ''X'' ''Zapoteco'', mkFeature ''a|b'' ''c'' ''Y'' ''Zapoteco'']"

definition barData :: ExtractedData where
  "barData =
    \<lparr>entidades = {''a'', ''a|b''},
     municipiosPorEntidad = [''a'' \<mapsto> {''b|c''}, ''a|b'' \<mapsto> {''c''}],
     comunidadesPorMunicipio = [''a|b|c'' \<mapsto> {''X'', ''Y''}],
     pueblos = {''Zapoteco''},
     features = barFeatures\<rparr>"

section \<open>Auxiliary facts\<close>

lemma trim_Nil [simp]: "trim [] = []"
  by (simp add: trim_def trimStart_def trimEnd_def)

lemma trim_nonempty: "trim x \<noteq> [] \<Longrightarrow> x \<noteq> []"
  by auto

lemma stripOne_shorter:
  assumes "[] \<notin> set ws" and "stripOne ws s = Some r"
  shows "length r < length s"
proof -
  from assms(2) obtain w where w: "find (\<lambda>w. take (length w) s = w) ws = Some w"
    and r: "r = drop (length w) s"
    by (auto simp: stripOne_def split: option.splits)
  from w have "w \<in> set ws" "take (length w) s = w"
    by (auto simp: find_Some_iff)
  with assms(1) have "w \<noteq> []" "length w \<le> length s"
    by (auto simp: take_eq_Nil dest: arg_cong [where f = length])
  with r show ?thesis by (cases w) auto
qed

text \<open>With enough rounds nothing of \<open>ws\<close> is left at the front.\<close>

lemma stripMany_complete:
  "[] \<notin> set ws \<Longrightarrow> length s \<le> n \<Longrightarrow> stripOne ws (stripMany n ws s) = None"
proof (induction n arbitrary: s)
  case 0
  then have "find (\<lambda>w. take (length w) s = w) ws = None"
    by (auto simp: find_None_iff)
  then show ?case by (simp add: stripOne_def)
next
  case (Suc n)
  show ?case
  proof (cases "stripOne ws s")
    case None
    then show ?thesis by simp
  next
    case (Some r)
    with Suc.prems stripOne_shorter [of ws s r] have "length r \<le> n" by simp
    with Suc.IH Suc.prems(1) Some show ?thesis by simp
  qed
qed

lemma trim_examples:
  "trim ''Tzotzil'' = ''Tzotzil''" "trim ''Zapoteco'' = ''Zapoteco''"
  "trim ''Oaxaca'' = ''Oaxaca''" "trim ''Chiapas'' = ''Chiapas''"
  "trim ''B'' = ''B''" "trim ''X'' = ''X''" "trim '' '' = []"
  "trim ''Y'' = ''Y''" "trim ''Z'' = ''Z''" "trim ''W'' = ''W''"
  "trim '' Oaxaca'' = ''Oaxaca''" "trim ''a'' = ''a''" "trim ''c'' = ''c''"
  "trim ''a|b'' = ''a|b''" "trim ''b|c'' = ''b|c''"
  by (simp_all add: trim_def trimStart_def trimEnd_def stripOne_def whiteSpace_def)

lemma trim_Juchitan: "trim Juchitan = Juchitan"
  by (simp add: trim_def trimStart_def trimEnd_def stripOne_def whiteSpace_def Juchitan_def)

lemma features_exampleData: "features exampleData = exampleFeatures"
  by (simp add: exampleData_def uniqueFeatures_def exampleFeatures_def mkFeature_def recordId_def)

lemmas example_simps =
  features_exampleData exampleFeatures_def mkFeature_def sel_def emptyFilters_def
  featureComunidad_def js_or_def truthy_def trim_examples

lemma index_exampleData:
  "entidades exampleData = {''Oaxaca'', ''Chiapas''}"
  "pueblos exampleData = {''Zapoteco'', ''Tzotzil''}"
  "lookupSet (municipiosPorEntidad exampleData) ''Oaxaca'' = {Juchitan}"
  "lookupSet (comunidadesPorMunicipio exampleData) (joinKey ''Oaxaca'' Juchitan) = {''X'', ''Y''}"
  "lookupSet (comunidadesPorMunicipio exampleData) (joinKey ''Oaxaca'' ''Z'') = {}"
  by (simp_all add: exampleData_def lookupSet_def joinKey_def Juchitan_def)

lemma Juchitan_neq: "Juchitan \<noteq> []" "Juchitan \<noteq> ''Z''" "''Z'' \<noteq> Juchitan"
  by (simp_all add: Juchitan_def)

text \<open>The count predicate, facet by facet.\<close>

lemma countPredicate_iff:
  "countPredicate s f \<longleftrightarrow>
     (trim (entidad s) = [] \<or> NOM_ENT f = Some (entidad s)) \<and>
     (trim (municipio s) = [] \<or> NOM_MUN f = Some (municipio s)) \<and>
     (trim (comunidad s) = [] \<or> featureComunidad f = Some (comunidad s)) \<and>
     (trim (pueblo s) = [] \<or> Pueblo f = Some (pueblo s))"
  by (auto simp: countPredicate_def dest: trim_nonempty)

lemma count_positive:
  "f \<in> set (features d) \<Longrightarrow> countPredicate s f \<Longrightarrow> 0 < getFilteredCount (Some d) s"
  by (auto simp: getFilteredCount_def filter_empty_conv)

lemma in_set_map_filter:
  "y \<in> set (List.map_filter g xs) \<longleftrightarrow> (\<exists>x \<in> set xs. g x = Some y)"
  by (induction xs) (auto split: option.splits)

section \<open>The reconciler\<close>

text \<open>
  C10. Without a feature index (\<open>extractedData\<close> is \<open>null\<close>, before the first load
  completes) the reconciler returns the selection it was given, unchanged: the
  edited value is dropped and no facet is cleared.
\<close>

theorem synchronizeFilters_no_data:
  "synchronizeFilters None fld v currentFilters = currentFilters"
  by (simp add: synchronizeFilters_def)

theorem synchronizeFilters_no_data_witness:
  "synchronizeFilters None F_entidad ''Oaxaca'' (sel [] [] [] ''Tzotzil'') = sel [] [] [] ''Tzotzil''"
  using synchronizeFilters_no_data [of F_entidad "''Oaxaca''" "sel [] [] [] ''Tzotzil''"] by simp

lemma synchronizeFilters_entidad:
  "synchronizeFilters (Some d) F_entidad v s =
     s\<lparr>entidad := v, municipio := [], comunidad := [],
       pueblo := (if pueblo s \<noteq> [] \<and>
                     \<not> list_ex (\<lambda>f. NOM_ENT f = Some v \<and> Pueblo f = Some (pueblo s)) (features d)
                  then [] else pueblo s)\<rparr>"
  by (cases s)
     (simp add: synchronizeFilters_def sync_entidad_def hasAnyFilter_def emptyFilters_def Let_def)

text \<open>
  C4. Editing the state facet clears municipality and community whatever they
  were, and clears people exactly when people was set and no feature of the index
  has both the new state and that people; otherwise people is kept. On the index of
  the three example features, selecting people Tzotzil and then editing state to
  Oaxaca gives state Oaxaca with the other three facets empty, and the count is 2.
\<close>

theorem state_edit:
  "entidad (synchronizeFilters (Some d) F_entidad v s) = v \<and>
   municipio (synchronizeFilters (Some d) F_entidad v s) = [] \<and>
   comunidad (synchronizeFilters (Some d) F_entidad v s) = [] \<and>
   pueblo (synchronizeFilters (Some d) F_entidad v s) =
     (if pueblo s \<noteq> [] \<and>
         \<not> list_ex (\<lambda>f. NOM_ENT f = Some v \<and> Pueblo f = Some (pueblo s)) (features d)
      then [] else pueblo s) \<and>
   synchronizeFilters (Some exampleData) F_pueblo ''Tzotzil'' emptyFilters =
     sel [] [] [] ''Tzotzil'' \<and>
   synchronizeFilters (Some exampleData) F_entidad ''Oaxaca'' (sel [] [] [] ''Tzotzil'') =
     sel ''Oaxaca'' [] [] [] \<and>
   getFilteredCount (Some exampleData) (sel ''Oaxaca'' [] [] []) = 2"
proof -
  have e1: "synchronizeFilters (Some exampleData) F_pueblo ''Tzotzil'' emptyFilters =
      sel [] [] [] ''Tzotzil''"
    by (simp add: synchronizeFilters_def sync_pueblo_def hasAnyFilter_def Let_def example_simps)
  have e2: "synchronizeFilters (Some exampleData) F_entidad ''Oaxaca'' (sel [] [] [] ''Tzotzil'') =
      sel ''Oaxaca'' [] [] []"
    by (simp add: synchronizeFilters_entidad example_simps)
  have e3: "getFilteredCount (Some exampleData) (sel ''Oaxaca'' [] [] []) = 2"
    by (simp add: getFilteredCount_def countPredicate_def example_simps)
  have gen: "entidad (synchronizeFilters (Some d) F_entidad v s) = v \<and>
      municipio (synchronizeFilters (Some d) F_entidad v s) = [] \<and>
      comunidad (synchronizeFilters (Some d) F_entidad v s) = [] \<and>
      pueblo (synchronizeFilters (Some d) F_entidad v s) =
        (if pueblo s \<noteq> [] \<and>
            \<not> list_ex (\<lambda>f. NOM_ENT f = Some v \<and> Pueblo f = Some (pueblo s)) (features d)
         then [] else pueblo s)"
    by (simp add: synchronizeFilters_entidad)
  from gen e1 e2 e3 show ?thesis by blast
qed

theorem state_edit_witness:
  "synchronizeFilters (Some exampleData) F_entidad ''Chiapas''
     (sel ''Oaxaca'' Juchitan ''X'' ''Tzotzil'') = sel ''Chiapas'' [] [] ''Tzotzil''"
proof -
  let ?r = "synchronizeFilters (Some exampleData) F_entidad ''Chiapas''
              (sel ''Oaxaca'' Juchitan ''X'' ''Tzotzil'')"
  from state_edit [of exampleData "''Chiapas''" "sel ''Oaxaca'' Juchitan ''X'' ''Tzotzil''"]
  have "entidad ?r = ''Chiapas'' \<and> municipio ?r = [] \<and> comunidad ?r = [] \<and>
        pueblo ?r = ''Tzotzil''"
    by (simp add: example_simps)
  then show ?thesis by (cases ?r) (simp add: sel_def)
qed

lemma synchronizeFilters_pueblo_nonblank:
  assumes "trim p \<noteq> []"
  shows "synchronizeFilters (Some d) F_pueblo p s = sync_pueblo d p (s\<lparr>pueblo := p\<rparr>)"
proof -
  from assms have p: "p \<noteq> []" by auto
  have "pueblo (sync_pueblo d p (s\<lparr>pueblo := p\<rparr>)) = p"
    by (simp add: sync_pueblo_def Let_def)
  with p have "hasAnyFilter (sync_pueblo d p (s\<lparr>pueblo := p\<rparr>))"
    by (simp add: hasAnyFilter_def)
  then show ?thesis by (simp add: synchronizeFilters_def Let_def)
qed

lemma sync_pueblo_top_down:
  assumes nb: "trim p \<noteq> []" and nest: "nestedSelection s"
  shows "sync_pueblo d p (s\<lparr>pueblo := p\<rparr>) = peopleEditTopDown d p s"
proof -
  from nb have p: "p \<noteq> []" by auto
  define E where
    "E = list_ex (\<lambda>f. NOM_ENT f = Some (entidad s) \<and> Pueblo f = Some p) (features d)"
  define M where
    "M = list_ex (\<lambda>f. NOM_ENT f = Some (entidad s) \<and> NOM_MUN f = Some (municipio s) \<and>
                       Pueblo f = Some p) (features d)"
  define C where
    "C = list_ex (\<lambda>f. NOM_ENT f = Some (entidad s) \<and> NOM_MUN f = Some (municipio s) \<and>
                       featureComunidad f = Some (comunidad s) \<and> Pueblo f = Some p) (features d)"
  have CM: "C \<Longrightarrow> M" and ME: "M \<Longrightarrow> E"
    unfolding C_def M_def E_def list_ex_iff by blast+
  consider (none) "entidad s = []" "municipio s = []" "comunidad s = []"
    | (ent) "entidad s \<noteq> []" "municipio s = []" "comunidad s = []"
    | (mun) "entidad s \<noteq> []" "municipio s \<noteq> []" "comunidad s = []"
    | (com) "entidad s \<noteq> []" "municipio s \<noteq> []" "comunidad s \<noteq> []"
    using nest unfolding nestedSelection_def by blast
  then show ?thesis
  proof cases
    case none
    then show ?thesis using nb p by (simp add: sync_pueblo_def peopleEditTopDown_def Let_def)
  next
    case ent
    then show ?thesis using nb p
      by (cases E) (simp_all add: sync_pueblo_def peopleEditTopDown_def Let_def E_def)
  next
    case mun
    show ?thesis
    proof (cases E)
      case True
      then show ?thesis using nb p mun
        by (cases M) (simp_all add: sync_pueblo_def peopleEditTopDown_def Let_def E_def M_def)
    next
      case False
      with ME have "\<not> M" by blast
      with False show ?thesis using nb p mun
        by (simp add: sync_pueblo_def peopleEditTopDown_def Let_def E_def M_def)
    qed
  next
    case com
    show ?thesis
    proof (cases C)
      case True
      with CM ME have "M" "E" by blast+
      with True show ?thesis using nb p com
        by (simp add: sync_pueblo_def peopleEditTopDown_def Let_def E_def M_def C_def)
    next
      case nC: False
      show ?thesis
      proof (cases E)
        case True
        then show ?thesis using nb p com nC
          by (cases M)
             (simp_all add: sync_pueblo_def peopleEditTopDown_def Let_def E_def M_def C_def)
      next
        case False
        with ME have "\<not> M" by blast
        with False show ?thesis using nb p com nC
          by (simp add: sync_pueblo_def peopleEditTopDown_def Let_def E_def M_def C_def)
      qed
    qed
  qed
qed

lemma sync_pueblo_triple:
  "(entidad (sync_pueblo d p nf), municipio (sync_pueblo d p nf), comunidad (sync_pueblo d p nf)) \<in>
     {(entidad nf, municipio nf, comunidad nf), ([], [], []),
      (entidad nf, [], []), (entidad nf, municipio nf, [])}"
  by (simp add: sync_pueblo_def Let_def)

text \<open>
  C3, amended. An edit of the people facet never fills in a hierarchical facet:
  each of state, municipality and community is afterwards what it was or empty (so
  three empty facets stay empty). When the new value is not blank (not empty and
  not only white space) and the selection is nested (no municipality without a
  state, no community without a municipality), conflicts are resolved top-down:
  a state with no feature of (state, new people) clears state, municipality and
  community; else a municipality with no feature of (state, municipality, new
  people) clears municipality and community; else a community with no feature of
  the full quadruple clears community only; otherwise the hierarchical facets are
  unchanged.
\<close>

theorem people_edit_top_down:
  "(entidad (synchronizeFilters (Some d) F_pueblo p s) = entidad s \<or>
      entidad (synchronizeFilters (Some d) F_pueblo p s) = []) \<and>
   (municipio (synchronizeFilters (Some d) F_pueblo p s) = municipio s \<or>
      municipio (synchronizeFilters (Some d) F_pueblo p s) = []) \<and>
   (comunidad (synchronizeFilters (Some d) F_pueblo p s) = comunidad s \<or>
      comunidad (synchronizeFilters (Some d) F_pueblo p s) = []) \<and>
   (trim p \<noteq> [] \<and> nestedSelection s \<longrightarrow>
      synchronizeFilters (Some d) F_pueblo p s = peopleEditTopDown d p s)"
proof -
  have a: "entidad (synchronizeFilters (Some d) F_pueblo p s) = entidad s \<or>
      entidad (synchronizeFilters (Some d) F_pueblo p s) = []"
    using sync_pueblo_triple [of d p "s\<lparr>pueblo := p\<rparr>"]
    by (auto simp: synchronizeFilters_def emptyFilters_def Let_def)
  have b: "municipio (synchronizeFilters (Some d) F_pueblo p s) = municipio s \<or>
      municipio (synchronizeFilters (Some d) F_pueblo p s) = []"
    using sync_pueblo_triple [of d p "s\<lparr>pueblo := p\<rparr>"]
    by (auto simp: synchronizeFilters_def emptyFilters_def Let_def)
  have c: "comunidad (synchronizeFilters (Some d) F_pueblo p s) = comunidad s \<or>
      comunidad (synchronizeFilters (Some d) F_pueblo p s) = []"
    using sync_pueblo_triple [of d p "s\<lparr>pueblo := p\<rparr>"]
    by (auto simp: synchronizeFilters_def emptyFilters_def Let_def)
  have t: "trim p \<noteq> [] \<and> nestedSelection s \<longrightarrow>
      synchronizeFilters (Some d) F_pueblo p s = peopleEditTopDown d p s"
    by (simp add: synchronizeFilters_pueblo_nonblank sync_pueblo_top_down)
  from a b c t show ?thesis by blast
qed

theorem people_edit_top_down_witness:
  "trim ''Tzotzil'' \<noteq> [] \<and> nestedSelection (sel ''Oaxaca'' Juchitan ''X'' []) \<and>
   synchronizeFilters (Some exampleData) F_pueblo ''Tzotzil'' (sel ''Oaxaca'' Juchitan ''X'' []) =
     sel [] [] [] ''Tzotzil'' \<and>
   synchronizeFilters (Some exampleData) F_pueblo ''Zapoteco'' (sel ''Oaxaca'' Juchitan ''W'' []) =
     sel ''Oaxaca'' Juchitan [] ''Zapoteco''"
proof -
  have h: "trim ''Tzotzil'' \<noteq> []" "trim ''Zapoteco'' \<noteq> []"
    "nestedSelection (sel ''Oaxaca'' Juchitan ''X'' [])"
    "nestedSelection (sel ''Oaxaca'' Juchitan ''W'' [])"
    by (simp_all add: trim_examples nestedSelection_def sel_def Juchitan_neq)
  have v1: "peopleEditTopDown exampleData ''Tzotzil'' (sel ''Oaxaca'' Juchitan ''X'' []) =
      sel [] [] [] ''Tzotzil''"
    by (simp add: peopleEditTopDown_def example_simps)
  have v2: "peopleEditTopDown exampleData ''Zapoteco'' (sel ''Oaxaca'' Juchitan ''W'' []) =
      sel ''Oaxaca'' Juchitan [] ''Zapoteco''"
    by (simp add: peopleEditTopDown_def example_simps Juchitan_neq)
  from h v1 v2
    people_edit_top_down [of exampleData "''Tzotzil''" "sel ''Oaxaca'' Juchitan ''X'' []"]
    people_edit_top_down [of exampleData "''Zapoteco''" "sel ''Oaxaca'' Juchitan ''W'' []"]
  show ?thesis by simp
qed

text \<open>
  The claim as stated fails in two places. A blank value is not empty, yet it is
  handled as a clearing: the state stays although no feature has it with the new
  people. And on a selection that is not nested (a municipality without a state)
  the incompatible municipality stays.
\<close>

theorem people_edit_top_down_counterexample:
  "'' '' \<noteq> [] \<and>
   \<not> list_ex (\<lambda>f. NOM_ENT f = Some ''Oaxaca'' \<and> Pueblo f = Some '' '') (features exampleData) \<and>
   synchronizeFilters (Some exampleData) F_pueblo '' '' (sel ''Oaxaca'' [] [] []) =
     sel ''Oaxaca'' [] [] '' '' \<and>
   peopleEditTopDown exampleData '' '' (sel ''Oaxaca'' [] [] []) = sel [] [] [] '' '' \<and>
   \<not> list_ex (\<lambda>f. NOM_MUN f = Some ''Z'' \<and> Pueblo f = Some ''Zapoteco'') (features exampleData) \<and>
   synchronizeFilters (Some exampleData) F_pueblo ''Zapoteco'' (sel [] ''Z'' [] []) =
     sel [] ''Z'' [] ''Zapoteco'' \<and>
   peopleEditTopDown exampleData ''Zapoteco'' (sel [] ''Z'' [] []) = sel [] [] [] ''Zapoteco''"
proof -
  have a: "\<not> list_ex (\<lambda>f. NOM_ENT f = Some ''Oaxaca'' \<and> Pueblo f = Some '' '')
             (features exampleData)"
    by (simp add: example_simps)
  have b: "synchronizeFilters (Some exampleData) F_pueblo '' '' (sel ''Oaxaca'' [] [] []) =
      sel ''Oaxaca'' [] [] '' ''"
    by (simp add: synchronizeFilters_def sync_pueblo_def hasAnyFilter_def Let_def example_simps)
  have c: "peopleEditTopDown exampleData '' '' (sel ''Oaxaca'' [] [] []) = sel [] [] [] '' ''"
    by (simp add: peopleEditTopDown_def example_simps)
  have d: "\<not> list_ex (\<lambda>f. NOM_MUN f = Some ''Z'' \<and> Pueblo f = Some ''Zapoteco'')
             (features exampleData)"
    by (simp add: example_simps Juchitan_neq)
  have e: "synchronizeFilters (Some exampleData) F_pueblo ''Zapoteco'' (sel [] ''Z'' [] []) =
      sel [] ''Z'' [] ''Zapoteco''"
    by (simp add: synchronizeFilters_def sync_pueblo_def hasAnyFilter_def Let_def example_simps)
  have f: "peopleEditTopDown exampleData ''Zapoteco'' (sel [] ''Z'' [] []) =
      sel [] [] [] ''Zapoteco''"
    by (simp add: peopleEditTopDown_def example_simps)
  from a b c d e f show ?thesis by simp
qed

lemma hierarchyInvariant_empty: "hierarchyInvariant d emptyFilters"
  by (simp add: hierarchyInvariant_def emptyFilters_def)

lemma hierarchyInvariant_normalise:
  "hierarchyInvariant d nf \<Longrightarrow>
   hierarchyInvariant d (if \<not> hasAnyFilter nf then emptyFilters else nf)"
  by (simp add: hierarchyInvariant_empty)

lemma hierarchyInvariant_sync_entidad: "hierarchyInvariant d (sync_entidad d v nf)"
  by (simp add: hierarchyInvariant_def sync_entidad_def Let_def)

lemma hierarchyInvariant_sync_municipio:
  assumes "listedEdit d s F_municipio v"
  shows "hierarchyInvariant d (sync_municipio d v (s\<lparr>municipio := v\<rparr>))"
  using assms by (auto simp: hierarchyInvariant_def sync_municipio_def listedEdit_def Let_def)

lemma hierarchyInvariant_sync_comunidad:
  assumes "hierarchyInvariant d s" and "listedEdit d s F_comunidad v"
  shows "hierarchyInvariant d (sync_comunidad d v (s\<lparr>comunidad := v\<rparr>))"
  using assms by (auto simp: hierarchyInvariant_def sync_comunidad_def listedEdit_def)

lemma hierarchyInvariant_sync_pueblo:
  assumes "hierarchyInvariant d s"
  shows "hierarchyInvariant d (sync_pueblo d p (s\<lparr>pueblo := p\<rparr>))"
proof -
  let ?r = "sync_pueblo d p (s\<lparr>pueblo := p\<rparr>)"
  from sync_pueblo_triple [of d p "s\<lparr>pueblo := p\<rparr>"]
  consider "entidad ?r = entidad s" "municipio ?r = municipio s" "comunidad ?r = comunidad s"
    | "entidad ?r = []" "municipio ?r = []" "comunidad ?r = []"
    | "entidad ?r = entidad s" "municipio ?r = []" "comunidad ?r = []"
    | "entidad ?r = entidad s" "municipio ?r = municipio s" "comunidad ?r = []"
    by auto
  then show ?thesis
    using assms by cases (simp_all add: hierarchyInvariant_def)
qed

text \<open>
  C1, amended. For every selection that satisfies the containment invariant and
  every single-facet edit whose new value the index lists under that selection (a
  municipality edit to the empty value or to a municipality listed under the
  selected state, a community edit to the empty value or to a community listed
  under the selected state and municipality, any edit of state or people), the
  selection returned by the reconciler satisfies the invariant again.
\<close>

theorem reconcile_preserves_invariant:
  assumes "hierarchyInvariant d s" and "listedEdit d s fld v"
  shows "hierarchyInvariant d (synchronizeFilters (Some d) fld v s)"
proof (cases fld)
  case F_entidad
  then show ?thesis
    using hierarchyInvariant_normalise [OF hierarchyInvariant_sync_entidad]
    by (simp add: synchronizeFilters_def Let_def)
next
  case F_municipio
  with assms(2) show ?thesis
    using hierarchyInvariant_normalise [OF hierarchyInvariant_sync_municipio]
    by (simp add: synchronizeFilters_def Let_def)
next
  case F_comunidad
  with assms show ?thesis
    using hierarchyInvariant_normalise [OF hierarchyInvariant_sync_comunidad]
    by (simp add: synchronizeFilters_def Let_def)
next
  case F_pueblo
  with assms(1) show ?thesis
    using hierarchyInvariant_normalise [OF hierarchyInvariant_sync_pueblo]
    by (simp add: synchronizeFilters_def Let_def)
qed

theorem reconcile_preserves_invariant_witness:
  "hierarchyInvariant exampleData (sel ''Oaxaca'' Juchitan [] ''Zapoteco'') \<and>
   listedEdit exampleData (sel ''Oaxaca'' Juchitan [] ''Zapoteco'') F_comunidad ''X'' \<and>
   hierarchyInvariant exampleData
     (synchronizeFilters (Some exampleData) F_comunidad ''X''
        (sel ''Oaxaca'' Juchitan [] ''Zapoteco'')) \<and>
   synchronizeFilters (Some exampleData) F_comunidad ''X''
     (sel ''Oaxaca'' Juchitan [] ''Zapoteco'') = sel ''Oaxaca'' Juchitan ''X'' ''Zapoteco''"
proof -
  have h1: "hierarchyInvariant exampleData (sel ''Oaxaca'' Juchitan [] ''Zapoteco'')"
    by (simp add: hierarchyInvariant_def sel_def index_exampleData Juchitan_neq)
  have h2: "listedEdit exampleData (sel ''Oaxaca'' Juchitan [] ''Zapoteco'') F_comunidad ''X''"
    by (simp add: listedEdit_def sel_def index_exampleData Juchitan_neq)
  have v: "synchronizeFilters (Some exampleData) F_comunidad ''X''
      (sel ''Oaxaca'' Juchitan [] ''Zapoteco'') = sel ''Oaxaca'' Juchitan ''X'' ''Zapoteco''"
    by (simp add: synchronizeFilters_def sync_comunidad_def hasAnyFilter_def Let_def
        example_simps Juchitan_neq)
  from h1 h2 v reconcile_preserves_invariant [OF h1 h2] show ?thesis by simp
qed

text \<open>
  The claim as stated, for every edit, fails: the reconciler stores the new value
  of a municipality edit without looking it up, here a municipality of another
  state.
\<close>

theorem reconcile_preserves_invariant_counterexample:
  "hierarchyInvariant exampleData (sel ''Oaxaca'' [] [] []) \<and>
   synchronizeFilters (Some exampleData) F_municipio ''Z'' (sel ''Oaxaca'' [] [] []) =
     sel ''Oaxaca'' ''Z'' [] [] \<and>
   \<not> hierarchyInvariant exampleData
       (synchronizeFilters (Some exampleData) F_municipio ''Z'' (sel ''Oaxaca'' [] [] []))"
proof -
  have a: "hierarchyInvariant exampleData (sel ''Oaxaca'' [] [] [])"
    by (simp add: hierarchyInvariant_def sel_def)
  have b: "synchronizeFilters (Some exampleData) F_municipio ''Z'' (sel ''Oaxaca'' [] [] []) =
      sel ''Oaxaca'' ''Z'' [] []"
    by (simp add: synchronizeFilters_def sync_municipio_def hasAnyFilter_def Let_def sel_def)
  have c: "\<not> hierarchyInvariant exampleData (sel ''Oaxaca'' ''Z'' [] [])"
    by (simp add: hierarchyInvariant_def sel_def index_exampleData Juchitan_neq)
  from a b c show ?thesis by simp
qed

section \<open>The count\<close>

text \<open>
  C9. Monotonic narrowing: replacing one empty facet of a selection by a non-empty
  value never increases the count.
\<close>

theorem count_narrowing:
  assumes "get_field fld s = []" and "v \<noteq> []"
  shows "getFilteredCount d (set_field fld v s) \<le> getFilteredCount d s"
proof (cases d)
  case None
  then show ?thesis by (simp add: getFilteredCount_def)
next
  case (Some ix)
  have narrower: "countPredicate (set_field fld v s) f \<Longrightarrow> countPredicate s f" for f
    using assms(1) by (cases fld) (auto simp: countPredicate_def split: if_splits)
  have "filter (countPredicate (set_field fld v s)) (features ix) =
        filter (countPredicate (set_field fld v s)) (filter (countPredicate s) (features ix))"
    using narrower by (auto intro: filter_cong)
  then have "length (filter (countPredicate (set_field fld v s)) (features ix)) \<le>
             length (filter (countPredicate s) (features ix))"
    by (metis length_filter_le)
  with Some show ?thesis by (simp add: getFilteredCount_def)
qed

theorem count_narrowing_witness:
  "get_field F_pueblo (sel ''Oaxaca'' [] [] []) = [] \<and> ''Tzotzil'' \<noteq> [] \<and>
   getFilteredCount (Some exampleData) (sel ''Oaxaca'' [] [] ''Tzotzil'') = 0 \<and>
   getFilteredCount (Some exampleData) (sel ''Oaxaca'' [] [] []) = 2 \<and>
   getFilteredCount (Some exampleData) (set_field F_pueblo ''Tzotzil'' (sel ''Oaxaca'' [] [] []))
     \<le> getFilteredCount (Some exampleData) (sel ''Oaxaca'' [] [] [])"
proof -
  have h1: "get_field F_pueblo (sel ''Oaxaca'' [] [] []) = []" by (simp add: sel_def)
  have h2: "''Tzotzil'' \<noteq> []" by simp
  have c0: "getFilteredCount (Some exampleData) (sel ''Oaxaca'' [] [] ''Tzotzil'') = 0"
    by (simp add: getFilteredCount_def countPredicate_def example_simps)
  have c2: "getFilteredCount (Some exampleData) (sel ''Oaxaca'' [] [] []) = 2"
    by (simp add: getFilteredCount_def countPredicate_def example_simps)
  from h1 h2 c0 c2 count_narrowing [OF h1 h2, of "Some exampleData"] show ?thesis by blast
qed

section \<open>The validation pass\<close>

lemma validateFilters_hierarchy:
  "(entidad s \<noteq> [] \<and> entidad s \<notin> entidades d \<longrightarrow>
      entidad (validateFilters (Some d) s) = [] \<and> municipio (validateFilters (Some d) s) = [] \<and>
      comunidad (validateFilters (Some d) s) = []) \<and>
   (entidad s = [] \<longrightarrow>
      entidad (validateFilters (Some d) s) = [] \<and>
      municipio (validateFilters (Some d) s) = municipio s \<and>
      comunidad (validateFilters (Some d) s) = comunidad s) \<and>
   (entidad s \<noteq> [] \<and> entidad s \<in> entidades d \<longrightarrow>
      entidad (validateFilters (Some d) s) = entidad s \<and>
      (municipio s = [] \<longrightarrow>
         municipio (validateFilters (Some d) s) = [] \<and>
         comunidad (validateFilters (Some d) s) = comunidad s) \<and>
      (municipio s \<noteq> [] \<and> municipio s \<notin> lookupSet (municipiosPorEntidad d) (entidad s) \<longrightarrow>
         municipio (validateFilters (Some d) s) = [] \<and>
         comunidad (validateFilters (Some d) s) = []) \<and>
      (municipio s \<noteq> [] \<and> municipio s \<in> lookupSet (municipiosPorEntidad d) (entidad s) \<longrightarrow>
         municipio (validateFilters (Some d) s) = municipio s \<and>
         comunidad (validateFilters (Some d) s) =
           (if comunidad s \<noteq> [] \<and>
               comunidad s \<notin> lookupSet (comunidadesPorMunicipio d)
                                 (joinKey (entidad s) (municipio s))
            then [] else comunidad s)))"
  by (simp add: validateFilters_def Let_def)

lemma validateFilters_listed:
  "(entidad (validateFilters (Some d) s) = [] \<or> entidad (validateFilters (Some d) s) \<in> entidades d) \<and>
   (pueblo (validateFilters (Some d) s) = [] \<or> pueblo (validateFilters (Some d) s) \<in> pueblos d) \<and>
   (nestedSelection s \<longrightarrow> hierarchyInvariant d (validateFilters (Some d) s))"
  by (auto simp: validateFilters_def Let_def nestedSelection_def hierarchyInvariant_def)

text \<open>
  C6, amended. After an index rebuild the validation pass clears the facet values
  that the new index no longer lists, cascading downward: a state that is not in
  the states clears state, municipality and community; without a state the
  hierarchy is left as it is; under a surviving state, a municipality not listed
  under it clears municipality and community; under a surviving state and
  municipality, a community not listed under their pair clears community; a
  people value that is not in the peoples clears people. Afterwards a state or
  people that is set is listed in the index, and a selection that was nested
  satisfies the containment invariant. Every check is a membership in a set of the
  index: whether the people value is compatible with the surviving hierarchical
  facets is not examined.
\<close>

theorem validateFilters_cascade:
  "(entidad s \<noteq> [] \<and> entidad s \<notin> entidades d \<longrightarrow>
      entidad (validateFilters (Some d) s) = [] \<and> municipio (validateFilters (Some d) s) = [] \<and>
      comunidad (validateFilters (Some d) s) = []) \<and>
   (entidad s = [] \<longrightarrow>
      entidad (validateFilters (Some d) s) = [] \<and>
      municipio (validateFilters (Some d) s) = municipio s \<and>
      comunidad (validateFilters (Some d) s) = comunidad s) \<and>
   (entidad s \<noteq> [] \<and> entidad s \<in> entidades d \<longrightarrow>
      entidad (validateFilters (Some d) s) = entidad s \<and>
      (municipio s = [] \<longrightarrow>
         municipio (validateFilters (Some d) s) = [] \<and>
         comunidad (validateFilters (Some d) s) = comunidad s) \<and>
      (municipio s \<noteq> [] \<and> municipio s \<notin> lookupSet (municipiosPorEntidad d) (entidad s) \<longrightarrow>
         municipio (validateFilters (Some d) s) = [] \<and>
         comunidad (validateFilters (Some d) s) = []) \<and>
      (municipio s \<noteq> [] \<and> municipio s \<in> lookupSet (municipiosPorEntidad d) (entidad s) \<longrightarrow>
         municipio (validateFilters (Some d) s) = municipio s \<and>
         comunidad (validateFilters (Some d) s) =
           (if comunidad s \<noteq> [] \<and>
               comunidad s \<notin> lookupSet (comunidadesPorMunicipio d)
                                 (joinKey (entidad s) (municipio s))
            then [] else comunidad s))) \<and>
   pueblo (validateFilters (Some d) s) =
     (if pueblo s \<noteq> [] \<and> pueblo s \<notin> pueblos d then [] else pueblo s) \<and>
   (entidad (validateFilters (Some d) s) = [] \<or> entidad (validateFilters (Some d) s) \<in> entidades d) \<and>
   (pueblo (validateFilters (Some d) s) = [] \<or> pueblo (validateFilters (Some d) s) \<in> pueblos d) \<and>
   (nestedSelection s \<longrightarrow> hierarchyInvariant d (validateFilters (Some d) s))"
proof -
  have people: "pueblo (validateFilters (Some d) s) =
      (if pueblo s \<noteq> [] \<and> pueblo s \<notin> pueblos d then [] else pueblo s)"
    by (simp add: validateFilters_def Let_def)
  from validateFilters_hierarchy [of s d] people validateFilters_listed [of d s]
  show ?thesis by blast
qed

theorem validateFilters_cascade_witness:
  "validateFilters (Some exampleData) (sel ''Oaxaca'' ''Z'' ''W'' ''Maya'') = sel ''Oaxaca'' [] [] []"
proof -
  let ?s = "sel ''Oaxaca'' ''Z'' ''W'' ''Maya''"
  let ?r = "validateFilters (Some exampleData) ?s"
  from validateFilters_cascade [of ?s exampleData]
  have "entidad ?r = ''Oaxaca'' \<and> municipio ?r = [] \<and> comunidad ?r = [] \<and> pueblo ?r = []"
    by (simp add: sel_def index_exampleData Juchitan_neq)
  then show ?thesis by (cases ?r) (simp add: sel_def)
qed

text \<open>
  The claim as stated fails in its last part: state Oaxaca with people Tzotzil
  passes the validation unchanged, although no feature matches it and the
  reconciler, run on the same state, clears the people value.
\<close>

theorem validateFilters_cascade_counterexample:
  "validateFilters (Some exampleData) (sel ''Oaxaca'' [] [] ''Tzotzil'') =
     sel ''Oaxaca'' [] [] ''Tzotzil'' \<and>
   getFilteredCount (Some exampleData) (sel ''Oaxaca'' [] [] ''Tzotzil'') = 0 \<and>
   synchronizeFilters (Some exampleData) F_entidad ''Oaxaca'' (sel ''Oaxaca'' [] [] ''Tzotzil'') =
     sel ''Oaxaca'' [] [] []"
proof -
  have a: "validateFilters (Some exampleData) (sel ''Oaxaca'' [] [] ''Tzotzil'') =
      sel ''Oaxaca'' [] [] ''Tzotzil''"
    by (simp add: validateFilters_def Let_def sel_def index_exampleData)
  have b: "getFilteredCount (Some exampleData) (sel ''Oaxaca'' [] [] ''Tzotzil'') = 0"
    by (simp add: getFilteredCount_def countPredicate_def example_simps)
  have c: "synchronizeFilters (Some exampleData) F_entidad ''Oaxaca''
      (sel ''Oaxaca'' [] [] ''Tzotzil'') = sel ''Oaxaca'' [] [] []"
    by (simp add: synchronizeFilters_entidad example_simps)
  from a b c show ?thesis by simp
qed

section \<open>The viewport policy\<close>

text \<open>
  C7. The viewport policy has exactly four tiers, keyed solely by the most
  specific hierarchical facet that is set (community, else municipality, else
  state, else none). For every selection and every index, \<open>applyFilterZoom\<close> frames
  the map exactly when at least one feature passes its predicate, and then with
  the zoom ceiling and the padding of the selection's tier: 16 and 100/400 for
  community, 12 and 80/380 for municipality, 9 and 60/360 for state, 16 and 50/350
  for none; without data it does not frame. The padding is larger on the right in
  every tier, and two selections get the same values exactly when their most
  specific facet is the same. A selection with only people set is in the "none"
  tier, with any index and any number of matching features.
\<close>

theorem viewport_tiers:
  "applyFilterZoom (Some ix) s =
     (if filter (zoomPredicate s) (features ix) = [] then None
      else Some
        (case tierOf s of
           TierComunidad \<Rightarrow>
             \<lparr>padding = \<lparr>pad_top = 100, pad_bottom = 100, pad_left = 100, pad_right = 400\<rparr>,
              maxZoom = 16, duration = 1500, essential = True\<rparr>
         | TierMunicipio \<Rightarrow>
             \<lparr>padding = \<lparr>pad_top = 80, pad_bottom = 80, pad_left = 80, pad_right = 380\<rparr>,
              maxZoom = 12, duration = 1500, essential = True\<rparr>
         | TierEntidad \<Rightarrow>
             \<lparr>padding = \<lparr>pad_top = 60, pad_bottom = 60, pad_left = 60, pad_right = 360\<rparr>,
              maxZoom = 9, duration = 1500, essential = True\<rparr>
         | TierNone \<Rightarrow>
             \<lparr>padding = \<lparr>pad_top = 50, pad_bottom = 50, pad_left = 50, pad_right = 350\<rparr>,
              maxZoom = 16, duration = 1500, essential = True\<rparr>)) \<and>
   applyFilterZoom None s = None \<and>
   zoomTier s =
     (case tierOf s of
        TierComunidad \<Rightarrow> (\<lparr>pad_top = 100, pad_bottom = 100, pad_left = 100, pad_right = 400\<rparr>, 16)
      | TierMunicipio \<Rightarrow> (\<lparr>pad_top = 80, pad_bottom = 80, pad_left = 80, pad_right = 380\<rparr>, 12)
      | TierEntidad \<Rightarrow> (\<lparr>pad_top = 60, pad_bottom = 60, pad_left = 60, pad_right = 360\<rparr>, 9)
      | TierNone \<Rightarrow> (\<lparr>pad_top = 50, pad_bottom = 50, pad_left = 50, pad_right = 350\<rparr>, 16)) \<and>
   (zoomTier s = zoomTier s' \<longleftrightarrow> tierOf s = tierOf s') \<and>
   pad_left (fst (zoomTier s)) < pad_right (fst (zoomTier s)) \<and>
   (\<forall>opts. applyFilterZoom d s = Some opts \<longrightarrow> (padding opts, maxZoom opts) = zoomTier s) \<and>
   (entidad s = [] \<and> municipio s = [] \<and> comunidad s = [] \<longrightarrow>
      tierOf s = TierNone \<and>
      applyFilterZoom (Some ix) s =
        (if filter (zoomPredicate s) (features ix) = [] then None
         else Some \<lparr>padding = \<lparr>pad_top = 50, pad_bottom = 50, pad_left = 50, pad_right = 350\<rparr>,
                    maxZoom = 16, duration = 1500, essential = True\<rparr>))"
proof -
  have a: "zoomTier s =
     (case tierOf s of
        TierComunidad \<Rightarrow> (\<lparr>pad_top = 100, pad_bottom = 100, pad_left = 100, pad_right = 400\<rparr>, 16)
      | TierMunicipio \<Rightarrow> (\<lparr>pad_top = 80, pad_bottom = 80, pad_left = 80, pad_right = 380\<rparr>, 12)
      | TierEntidad \<Rightarrow> (\<lparr>pad_top = 60, pad_bottom = 60, pad_left = 60, pad_right = 360\<rparr>, 9)
      | TierNone \<Rightarrow> (\<lparr>pad_top = 50, pad_bottom = 50, pad_left = 50, pad_right = 350\<rparr>, 16))" for s
    by (simp add: zoomTier_def tierOf_def)
  have frame: "applyFilterZoom (Some ix) s =
     (if filter (zoomPredicate s) (features ix) = [] then None
      else Some
        (case tierOf s of
           TierComunidad \<Rightarrow>
             \<lparr>padding = \<lparr>pad_top = 100, pad_bottom = 100, pad_left = 100, pad_right = 400\<rparr>,
              maxZoom = 16, duration = 1500, essential = True\<rparr>
         | TierMunicipio \<Rightarrow>
             \<lparr>padding = \<lparr>pad_top = 80, pad_bottom = 80, pad_left = 80, pad_right = 380\<rparr>,
              maxZoom = 12, duration = 1500, essential = True\<rparr>
         | TierEntidad \<Rightarrow>
             \<lparr>padding = \<lparr>pad_top = 60, pad_bottom = 60, pad_left = 60, pad_right = 360\<rparr>,
              maxZoom = 9, duration = 1500, essential = True\<rparr>
         | TierNone \<Rightarrow>
             \<lparr>padding = \<lparr>pad_top = 50, pad_bottom = 50, pad_left = 50, pad_right = 350\<rparr>,
              maxZoom = 16, duration = 1500, essential = True\<rparr>))"
    by (simp add: applyFilterZoom_def zoomTier_def tierOf_def)
  have nodata: "applyFilterZoom None s = None"
    by (simp add: applyFilterZoom_def)
  have b: "zoomTier s = zoomTier s' \<longleftrightarrow> tierOf s = tierOf s'"
    unfolding a by (cases "tierOf s"; cases "tierOf s'") simp_all
  have c: "pad_left (fst (zoomTier s)) < pad_right (fst (zoomTier s))"
    unfolding a by (cases "tierOf s") simp_all
  have d: "\<forall>opts. applyFilterZoom d s = Some opts \<longrightarrow> (padding opts, maxZoom opts) = zoomTier s"
    by (cases "zoomTier s") (auto simp: applyFilterZoom_def split: option.splits if_splits)
  have e: "entidad s = [] \<and> municipio s = [] \<and> comunidad s = [] \<longrightarrow>
      tierOf s = TierNone \<and>
      applyFilterZoom (Some ix) s =
        (if filter (zoomPredicate s) (features ix) = [] then None
         else Some \<lparr>padding = \<lparr>pad_top = 50, pad_bottom = 50, pad_left = 50, pad_right = 350\<rparr>,
                    maxZoom = 16, duration = 1500, essential = True\<rparr>)"
    by (simp add: applyFilterZoom_def zoomTier_def tierOf_def)
  from frame nodata a [of s] b c d e show ?thesis by (intro conjI)
qed

theorem viewport_tiers_witness:
  "entidad (sel [] [] [] ''Tzotzil'') = [] \<and> municipio (sel [] [] [] ''Tzotzil'') = [] \<and>
   comunidad (sel [] [] [] ''Tzotzil'') = [] \<and>
   applyFilterZoom (Some exampleData) (sel [] [] [] ''Tzotzil'') =
     Some \<lparr>padding = \<lparr>pad_top = 50, pad_bottom = 50, pad_left = 50, pad_right = 350\<rparr>,
           maxZoom = 16, duration = 1500, essential = True\<rparr> \<and>
   getFilteredCount (Some exampleData) (sel ''Oaxaca'' Juchitan ''X'' []) = 1 \<and>
   applyFilterZoom (Some exampleData) (sel ''Oaxaca'' Juchitan ''X'' []) =
     Some \<lparr>padding = \<lparr>pad_top = 100, pad_bottom = 100, pad_left = 100, pad_right = 400\<rparr>,
           maxZoom = 16, duration = 1500, essential = True\<rparr> \<and>
   applyFilterZoom (Some exampleData) (sel ''Oaxaca'' Juchitan [] []) =
     Some \<lparr>padding = \<lparr>pad_top = 80, pad_bottom = 80, pad_left = 80, pad_right = 380\<rparr>,
           maxZoom = 12, duration = 1500, essential = True\<rparr> \<and>
   applyFilterZoom (Some exampleData) (sel ''Oaxaca'' [] [] []) =
     Some \<lparr>padding = \<lparr>pad_top = 60, pad_bottom = 60, pad_left = 60, pad_right = 360\<rparr>,
           maxZoom = 9, duration = 1500, essential = True\<rparr> \<and>
   applyFilterZoom (Some exampleData) (sel ''Oaxaca'' [] [] ''Tzotzil'') = None"
proof -
  have h: "entidad (sel [] [] [] ''Tzotzil'') = [] \<and> municipio (sel [] [] [] ''Tzotzil'') = [] \<and>
      comunidad (sel [] [] [] ''Tzotzil'') = []"
    by (simp add: sel_def)
  have m: "filter (zoomPredicate (sel [] [] [] ''Tzotzil'')) (features exampleData) \<noteq> []"
    "filter (zoomPredicate (sel ''Oaxaca'' Juchitan ''X'' [])) (features exampleData) \<noteq> []"
    "filter (zoomPredicate (sel ''Oaxaca'' Juchitan [] [])) (features exampleData) \<noteq> []"
    "filter (zoomPredicate (sel ''Oaxaca'' [] [] [])) (features exampleData) \<noteq> []"
    "filter (zoomPredicate (sel ''Oaxaca'' [] [] ''Tzotzil'')) (features exampleData) = []"
    by (simp_all add: zoomPredicate_def example_simps Juchitan_neq)
  have t: "tierOf (sel [] [] [] ''Tzotzil'') = TierNone"
    "tierOf (sel ''Oaxaca'' Juchitan ''X'' []) = TierComunidad"
    "tierOf (sel ''Oaxaca'' Juchitan [] []) = TierMunicipio"
    "tierOf (sel ''Oaxaca'' [] [] []) = TierEntidad"
    by (simp_all add: tierOf_def sel_def Juchitan_neq)
  have n: "getFilteredCount (Some exampleData) (sel ''Oaxaca'' Juchitan ''X'' []) = 1"
    by (simp add: getFilteredCount_def countPredicate_def example_simps trim_Juchitan Juchitan_neq)
  note frame = viewport_tiers [THEN conjunct1]
  from h n m t
    frame [of exampleData "sel [] [] [] ''Tzotzil''"]
    frame [of exampleData "sel ''Oaxaca'' Juchitan ''X'' []"]
    frame [of exampleData "sel ''Oaxaca'' Juchitan [] []"]
    frame [of exampleData "sel ''Oaxaca'' [] [] []"]
    frame [of exampleData "sel ''Oaxaca'' [] [] ''Tzotzil''"]
  show ?thesis by simp
qed

section \<open>De-duplication\<close>

lemma keptAt_Suc:
  "keptAt seen (f # fs) (Suc i) =
     keptAt (if recordId f = [] then seen else insert (recordId f) seen) fs i"
  by (auto simp: keptAt_def less_Suc_eq_0_disj)

lemma keptAt_0: "keptAt seen (f # fs) 0 = (recordId f = [] \<or> recordId f \<notin> seen)"
  by (simp add: keptAt_def)

lemma keptAt_empty:
  "keptAt {} fs = (\<lambda>i. recordId (fs ! i) = [] \<or> (\<forall>j<i. recordId (fs ! j) \<noteq> recordId (fs ! i)))"
  by (rule ext) (simp add: keptAt_def)

lemma upt_Suc_shift: "[0..<Suc n] = 0 # map Suc [0..<n]"
  by (simp add: upt_conv_Cons map_Suc_upt del: upt_Suc)

lemma uniqueFrom_index:
  "uniqueFrom seen fs = map ((!) fs) (filter (keptAt seen fs) [0..<length fs])"
proof (induction fs arbitrary: seen)
  case Nil
  then show ?case by simp
next
  case (Cons f fs)
  have shift: "map ((!) (f # fs)) (filter (keptAt seen (f # fs)) (map Suc [0..<length fs])) =
        map ((!) fs) (filter (keptAt (if recordId f = [] then seen else insert (recordId f) seen) fs)
          [0..<length fs])"
    by (simp add: filter_map comp_def keptAt_Suc)
  have absorbed: "insert (recordId f) seen = seen" if "recordId f \<in> seen"
    using that by auto
  show ?case
    unfolding length_Cons upt_Suc_shift
    using shift Cons.IH [of seen] Cons.IH [of "insert (recordId f) seen"]
    by (simp add: keptAt_0 Let_def absorbed del: upt_Suc)
qed

lemma uniqueFrom_no_id:
  "filter (\<lambda>f. recordId f = []) (uniqueFrom seen fs) = filter (\<lambda>f. recordId f = []) fs"
  by (induction fs arbitrary: seen) (auto simp: Let_def)

lemma uniqueFrom_seen:
  "k \<in> seen \<Longrightarrow> filter (\<lambda>f. recordId f = k) (uniqueFrom seen fs) =
      (if k = [] then filter (\<lambda>f. recordId f = k) fs else [])"
  by (induction fs arbitrary: seen) (auto simp: Let_def)

lemma uniqueFrom_with_id:
  "k \<noteq> [] \<Longrightarrow> k \<notin> seen \<Longrightarrow> filter (\<lambda>f. recordId f = k) (uniqueFrom seen fs) =
      (case find (\<lambda>f. recordId f = k) fs of None \<Rightarrow> [] | Some f \<Rightarrow> [f])"
proof (induction fs arbitrary: seen)
  case Nil
  then show ?case by simp
next
  case (Cons f fs)
  show ?case
  proof (cases "recordId f = k")
    case True
    with Cons.prems uniqueFrom_seen [of k "insert k seen" fs] show ?thesis
      by (simp add: Let_def)
  next
    case False
    with Cons show ?thesis by (auto simp: Let_def)
  qed
qed

text \<open>
  C8. De-duplication keeps exactly the first occurrence of each record id and
  every record without id: the surviving records are, in their order, those at
  the positions whose record has no id or has an id that no earlier record has.
  Hence the records without id survive as they are, repeated ones included, and of
  the records with a given id exactly one survives, the first of them.
\<close>

theorem uniqueFeatures_first_occurrence:
  "uniqueFeatures fs =
     map ((!) fs)
       (filter (\<lambda>i. recordId (fs ! i) = [] \<or> (\<forall>j<i. recordId (fs ! j) \<noteq> recordId (fs ! i)))
          [0..<length fs]) \<and>
   filter (\<lambda>f. recordId f = []) (uniqueFeatures fs) = filter (\<lambda>f. recordId f = []) fs \<and>
   (k \<noteq> [] \<longrightarrow>
      filter (\<lambda>f. recordId f = k) (uniqueFeatures fs) =
        (case find (\<lambda>f. recordId f = k) fs of None \<Rightarrow> [] | Some f \<Rightarrow> [f]))"
proof -
  have a: "uniqueFeatures fs =
     map ((!) fs)
       (filter (\<lambda>i. recordId (fs ! i) = [] \<or> (\<forall>j<i. recordId (fs ! j) \<noteq> recordId (fs ! i)))
          [0..<length fs])"
    unfolding uniqueFeatures_def uniqueFrom_index keptAt_empty ..
  have b: "filter (\<lambda>f. recordId f = []) (uniqueFeatures fs) = filter (\<lambda>f. recordId f = []) fs"
    unfolding uniqueFeatures_def by (rule uniqueFrom_no_id)
  have c: "k \<noteq> [] \<longrightarrow>
      filter (\<lambda>f. recordId f = k) (uniqueFeatures fs) =
        (case find (\<lambda>f. recordId f = k) fs of None \<Rightarrow> [] | Some f \<Rightarrow> [f])"
    unfolding uniqueFeatures_def by (simp add: uniqueFrom_with_id)
  from a b c show ?thesis by blast
qed

theorem uniqueFeatures_first_occurrence_witness:
  "''7'' \<noteq> [] \<and>
   filter (\<lambda>f. recordId f = ''7'') (uniqueFeatures rawFeatures) = [withId ''7'' ''X''] \<and>
   filter (\<lambda>f. recordId f = []) (uniqueFeatures rawFeatures) =
     [mkFeature ''Chiapas'' ''Z'' ''W'' ''Tzotzil'', mkFeature ''Chiapas'' ''Z'' ''W'' ''Tzotzil''] \<and>
   uniqueFeatures rawFeatures =
     [withId ''7'' ''X'', mkFeature ''Chiapas'' ''Z'' ''W'' ''Tzotzil'',
      mkFeature ''Chiapas'' ''Z'' ''W'' ''Tzotzil'']"
proof -
  have ids: "recordId (withId ''7'' ''X'') = ''7''" "recordId (withId ''7'' ''Y'') = ''7''"
    "recordId (mkFeature ''Chiapas'' ''Z'' ''W'' ''Tzotzil'') = []"
    by (simp_all add: recordId_def withId_def mkFeature_def)
  have u: "uniqueFeatures rawFeatures =
     [withId ''7'' ''X'', mkFeature ''Chiapas'' ''Z'' ''W'' ''Tzotzil'',
      mkFeature ''Chiapas'' ''Z'' ''W'' ''Tzotzil'']"
    by (simp add: uniqueFeatures_def rawFeatures_def ids)
  have f7: "find (\<lambda>f. recordId f = ''7'') rawFeatures = Some (withId ''7'' ''X'')"
    by (simp add: rawFeatures_def ids)
  have f0: "filter (\<lambda>f. recordId f = []) rawFeatures =
      [mkFeature ''Chiapas'' ''Z'' ''W'' ''Tzotzil'', mkFeature ''Chiapas'' ''Z'' ''W'' ''Tzotzil'']"
    by (simp add: rawFeatures_def ids)
  from uniqueFeatures_first_occurrence [of rawFeatures "''7''", THEN conjunct2] f7 f0
  have "filter (\<lambda>f. recordId f = ''7'') (uniqueFeatures rawFeatures) = [withId ''7'' ''X''] \<and>
        filter (\<lambda>f. recordId f = []) (uniqueFeatures rawFeatures) =
          [mkFeature ''Chiapas'' ''Z'' ''W'' ''Tzotzil'',
           mkFeature ''Chiapas'' ''Z'' ''W'' ''Tzotzil'']"
    by simp
  with u show ?thesis by simp
qed

section \<open>The map filter and the count\<close>

lemma key_distinct:
  "ENT_KEY \<noteq> MUN_KEY" "COM_KEY \<noteq> ENT_KEY" "COM_KEY \<noteq> MUN_KEY" "LOC_KEY \<noteq> ENT_KEY"
  "LOC_KEY \<noteq> MUN_KEY" "LOC_KEY \<noteq> COM_KEY" "PUE_KEY \<noteq> ENT_KEY" "PUE_KEY \<noteq> MUN_KEY"
  "PUE_KEY \<noteq> COM_KEY" "PUE_KEY \<noteq> LOC_KEY" "MUN_KEY \<noteq> ENT_KEY"
  by (simp_all add: ENT_KEY_def MUN_KEY_def COM_KEY_def LOC_KEY_def PUE_KEY_def)

lemma get_property_keys:
  "get_property ENT_KEY f = NOM_ENT f" "get_property MUN_KEY f = NOM_MUN f"
  "get_property COM_KEY f = NOM_COM f" "get_property LOC_KEY f = NOM_LOC f"
  "get_property PUE_KEY f = Pueblo f"
  by (simp_all add: get_property_def key_distinct)

text \<open>The map filter, facet by facet: the community facet accepts either name.\<close>

lemma layerShows_applyMapFilters:
  "layerShows (applyMapFilters s) f \<longleftrightarrow>
     (trim (entidad s) = [] \<or> NOM_ENT f = Some (entidad s)) \<and>
     (trim (municipio s) = [] \<or> NOM_MUN f = Some (municipio s)) \<and>
     (trim (comunidad s) = [] \<or> NOM_COM f = Some (comunidad s) \<or> NOM_LOC f = Some (comunidad s)) \<and>
     (trim (pueblo s) = [] \<or> Pueblo f = Some (pueblo s))"
  by (cases "trim (entidad s) = []"; cases "trim (municipio s) = []";
      cases "trim (comunidad s) = []"; cases "trim (pueblo s) = []")
     (simp_all add: applyMapFilters_def layerShows_def Let_def get_property_keys trim_nonempty)

text \<open>Every feature that the sidebar counts is drawn on the map.\<close>

lemma counted_is_shown: "countPredicate s f \<Longrightarrow> layerShows (applyMapFilters s) f"
  unfolding layerShows_applyMapFilters countPredicate_iff
  by (auto simp: featureComunidad_def js_or_def split: if_splits)

text \<open>
  C2. The claim is that a feature passes the map filter if and only if the
  sidebar counts it. The code does not do that: for a feature whose community name
  is \<open>A\<close> and whose locality name is \<open>B\<close>, with its state and municipality and the
  community \<open>B\<close> selected, the map filter
  passes the feature (it accepts a match on either name) while the sidebar does
  not count it (it compares with the community name, the locality name being only
  a fallback), and neither does the predicate of \<open>applyFilterZoom\<close>.
\<close>

theorem map_filter_shows_uncounted_feature:
  "layerShows (applyMapFilters (sel ''Oaxaca'' Juchitan ''B'' [])) twoNames \<and>
   \<not> countPredicate (sel ''Oaxaca'' Juchitan ''B'' []) twoNames \<and>
   \<not> zoomPredicate (sel ''Oaxaca'' Juchitan ''B'' []) twoNames"
  by (simp add: layerShows_applyMapFilters countPredicate_iff zoomPredicate_def twoNames_def
      example_simps trim_Juchitan Juchitan_neq)

section \<open>The lookup structures and the option lists\<close>

lemma backedState_mono: "backedState F st \<Longrightarrow> F \<subseteq> G \<Longrightarrow> backedState G st"
  unfolding backedState_def by (meson subsetD)

lemma backedState_empty: "backedState F emptyBuildState"
  by (simp add: backedState_def emptyBuildState_def)

lemma backed_entidad:
  assumes "backedState F st" and "f \<in> F" and "idxEntidad f \<noteq> []"
  shows "backedState F (st\<lparr>entidadesObj := setTrue (idxEntidad f) (entidadesObj st)\<rparr>)"
  using assms unfolding backedState_def setTrue_def by auto

lemma backed_pueblo:
  assumes "backedState F st" and "f \<in> F" and "idxPueblo f \<noteq> []"
  shows "backedState F (st\<lparr>pueblosObj := setTrue (idxPueblo f) (pueblosObj st)\<rparr>)"
  using assms unfolding backedState_def setTrue_def by auto

lemma set_pushUnique: "set (pushUnique arr x) = insert x (set arr)"
  by (auto simp: pushUnique_def)

lemma backed_municipio:
  assumes b: "backedState F st" and f: "f \<in> F"
    and ne: "idxEntidad f \<noteq> []" "idxMunicipio f \<noteq> []"
  shows "backedState F (st\<lparr>municipiosObj := (municipiosObj st)
           (idxEntidad f \<mapsto> pushUnique (arrayAt (municipiosObj st) (idxEntidad f)) (idxMunicipio f))\<rparr>)"
proof -
  have old: "\<forall>m \<in> set (arrayAt (municipiosObj st) (idxEntidad f)).
      idxEntidad f \<noteq> [] \<and> m \<noteq> [] \<and> (\<exists>g \<in> F. idxEntidad g = idxEntidad f \<and> idxMunicipio g = m)"
  proof (cases "municipiosObj st (idxEntidad f)")
    case None
    then show ?thesis by (simp add: arrayAt_def)
  next
    case (Some arr)
    with b show ?thesis unfolding backedState_def arrayAt_def by fastforce
  qed
  show ?thesis
    using b f ne old unfolding backedState_def
    by (auto simp: set_pushUnique)
qed

lemma backed_comunidad:
  assumes b: "backedState F st" and f: "f \<in> F"
    and ne: "idxEntidad f \<noteq> []" "idxMunicipio f \<noteq> []" "idxComunidad f \<noteq> []"
  shows "backedState F (st\<lparr>comunidadesObj := (comunidadesObj st)
           (joinKey (idxEntidad f) (idxMunicipio f) \<mapsto>
              pushUnique (arrayAt (comunidadesObj st) (joinKey (idxEntidad f) (idxMunicipio f)))
                (idxComunidad f))\<rparr>)"
proof -
  let ?k = "joinKey (idxEntidad f) (idxMunicipio f)"
  have old: "\<forall>c \<in> set (arrayAt (comunidadesObj st) ?k). c \<noteq> [] \<and>
      (\<exists>g \<in> F. idxEntidad g \<noteq> [] \<and> idxMunicipio g \<noteq> [] \<and>
                joinKey (idxEntidad g) (idxMunicipio g) = ?k \<and> idxComunidad g = c)"
  proof (cases "comunidadesObj st ?k")
    case None
    then show ?thesis by (simp add: arrayAt_def)
  next
    case (Some arr)
    with b show ?thesis unfolding backedState_def arrayAt_def by fastforce
  qed
  show ?thesis
    using b f ne old unfolding backedState_def
    by (auto simp: set_pushUnique)
qed

lemma indexFeature_backed:
  assumes "indexFeature f st = Inr st'" and b: "backedState F st" and f: "f \<in> F"
  shows "backedState F st'"
proof -
  let ?s1 = "st\<lparr>entidadesObj := setTrue (idxEntidad f) (entidadesObj st)\<rparr>"
  let ?s2 = "?s1\<lparr>municipiosObj := (municipiosObj ?s1)
           (idxEntidad f \<mapsto> pushUnique (arrayAt (municipiosObj ?s1) (idxEntidad f)) (idxMunicipio f))\<rparr>"
  let ?s3 = "?s2\<lparr>comunidadesObj := (comunidadesObj ?s2)
           (joinKey (idxEntidad f) (idxMunicipio f) \<mapsto>
              pushUnique (arrayAt (comunidadesObj ?s2) (joinKey (idxEntidad f) (idxMunicipio f)))
                (idxComunidad f))\<rparr>"
  have b1: "backedState F ?s1" if "idxEntidad f \<noteq> []"
    using backed_entidad [OF b f that] .
  have b2: "backedState F ?s2" if "idxEntidad f \<noteq> []" "idxMunicipio f \<noteq> []"
    using backed_municipio [OF b1 [OF that(1)] f that] .
  have b3: "backedState F ?s3"
    if "idxEntidad f \<noteq> []" "idxMunicipio f \<noteq> []" "idxComunidad f \<noteq> []"
    using backed_comunidad [OF b2 [OF that(1,2)] f that] .
  obtain st3 where st3: "backedState F st3"
    and st': "st' = (if idxPueblo f \<noteq> [] then st3\<lparr>pueblosObj := setTrue (idxPueblo f) (pueblosObj st3)\<rparr>
                     else st3)"
    using assms(1) b b1 b2 b3
    by (auto simp: indexFeature_def Let_def split: if_splits sum.splits)
  show ?thesis
    unfolding st' using st3 backed_pueblo [OF st3 f] by simp
qed

lemma indexFeatures_backed:
  "indexFeatures fs st = Inr st' \<Longrightarrow> backedState F st \<Longrightarrow> set fs \<subseteq> F \<Longrightarrow> backedState F st'"
proof (induction fs arbitrary: st)
  case Nil
  then show ?case by simp
next
  case (Cons f fs)
  from Cons.prems(1) obtain st1 where s1: "indexFeature f st = Inr st1"
    and rest: "indexFeatures fs st1 = Inr st'"
    by (auto split: sum.splits)
  from indexFeature_backed [OF s1 Cons.prems(2)] Cons.prems(3) have "backedState F st1" by simp
  with Cons.IH [OF rest] Cons.prems(3) show ?case by simp
qed

lemma set_uniqueFrom: "set (uniqueFrom seen fs) \<subseteq> set fs"
  by (induction fs arbitrary: seen) (auto simp: Let_def)

lemma clean_entidad:
  "cleanFeature f \<Longrightarrow> idxEntidad f = e \<Longrightarrow> e \<noteq> [] \<Longrightarrow> NOM_ENT f = Some e \<and> CHR ''|'' \<notin> set e"
  by (cases "NOM_ENT f")
     (auto simp: cleanFeature_def trimmedProperty_def idxEntidad_def stringOr_def js_or_def
        truthy_def split: if_splits)

lemma clean_municipio:
  "cleanFeature f \<Longrightarrow> idxMunicipio f = m \<Longrightarrow> m \<noteq> [] \<Longrightarrow> NOM_MUN f = Some m"
  by (cases "NOM_MUN f")
     (auto simp: cleanFeature_def trimmedProperty_def idxMunicipio_def stringOr_def js_or_def
        truthy_def split: if_splits)

lemma clean_pueblo:
  "cleanFeature f \<Longrightarrow> idxPueblo f = p \<Longrightarrow> p \<noteq> [] \<Longrightarrow> Pueblo f = Some p"
  by (cases "Pueblo f")
     (auto simp: cleanFeature_def trimmedProperty_def idxPueblo_def stringOr_def js_or_def
        truthy_def split: if_splits)

lemma clean_comunidad:
  "cleanFeature f \<Longrightarrow> idxComunidad f = c \<Longrightarrow> c \<noteq> [] \<Longrightarrow> featureComunidad f = Some c"
  by (cases "NOM_COM f"; cases "NOM_LOC f")
     (auto simp: cleanFeature_def trimmedProperty_def idxComunidad_def featureComunidad_def
        stringOr_def js_or_def truthy_def split: if_splits)

lemma joinKey_inject:
  "joinKey e m = joinKey e' m' \<Longrightarrow> CHR ''|'' \<notin> set e \<Longrightarrow> CHR ''|'' \<notin> set e' \<Longrightarrow>
   e = e' \<and> m = m'"
proof (induction e arbitrary: e')
  case Nil
  then show ?case by (cases e') (auto simp: joinKey_def)
next
  case (Cons a e)
  then show ?case by (cases e') (auto simp: joinKey_def)
qed

lemma stringOr_simps [simp]: "stringOr (Some x) = x" "stringOr None = []"
  by (simp_all add: stringOr_def js_or_def truthy_def)

lemma idx_mkFeature:
  "idxEntidad (mkFeature e m c p) = trim e" "idxMunicipio (mkFeature e m c p) = trim m"
  "idxComunidad (mkFeature e m c p) = trim c" "idxPueblo (mkFeature e m c p) = trim p"
  by (simp_all add: idxEntidad_def idxMunicipio_def idxComunidad_def idxPueblo_def mkFeature_def
      js_or_def truthy_def)

lemma map_option_comp_upd:
  "map_option g \<circ> (m(k \<mapsto> v)) = (map_option g \<circ> m)(k \<mapsto> g v)"
  "map_option g \<circ> Map.empty = Map.empty"
  by (auto simp: fun_eq_iff)

lemma lookupSet_arrays:
  "x \<in> lookupSet (map_option set \<circ> m) k \<longleftrightarrow> (\<exists>arr. m k = Some arr \<and> x \<in> set arr)"
  by (cases "m k") (simp_all add: lookupSet_def)

lemma recordId_mkFeature [simp]: "recordId (mkFeature e m c p) = []"
  by (simp add: recordId_def mkFeature_def)

lemma not_prototype_keys:
  "''Oaxaca'' \<notin> set objectPrototypeKeys" "''Chiapas'' \<notin> set objectPrototypeKeys"
  "''a'' \<notin> set objectPrototypeKeys" "''a|b'' \<notin> set objectPrototypeKeys"
  by (simp_all add: objectPrototypeKeys_def)

lemma example_keys:
  "joinKey ''Chiapas'' ''Z'' \<noteq> joinKey ''Oaxaca'' Juchitan"
  "joinKey ''a'' ''b|c'' = ''a|b|c''" "joinKey ''a|b'' ''c'' = ''a|b|c''"
  by (simp_all add: joinKey_def)

text \<open>The index of the example is the one that the builder derives from its features.\<close>

lemma extractLayerData_example: "extractLayerData exampleFeatures = Inr exampleData"
  by (simp add: extractLayerData_def exampleData_def exampleFeatures_def uniqueFeatures_def
      indexFeature_def emptyBuildState_def idx_mkFeature trim_examples trim_Juchitan
      Juchitan_neq not_prototype_keys setTrue_def pushUnique_def arrayAt_def example_keys
      map_option_comp_upd insert_commute Let_def)

lemma extractLayerData_padded: "extractLayerData paddedFeatures = Inr paddedData"
  by (simp add: extractLayerData_def paddedData_def paddedFeatures_def uniqueFeatures_def
      indexFeature_def emptyBuildState_def idx_mkFeature trim_examples trim_Juchitan
      Juchitan_neq not_prototype_keys setTrue_def pushUnique_def arrayAt_def
      map_option_comp_upd Let_def)

lemma extractLayerData_bar: "extractLayerData barFeatures = Inr barData"
  by (simp add: extractLayerData_def barData_def barFeatures_def uniqueFeatures_def
      indexFeature_def emptyBuildState_def idx_mkFeature trim_examples
      not_prototype_keys setTrue_def pushUnique_def arrayAt_def example_keys
      map_option_comp_upd insert_commute Let_def)

text \<open>
  On clean features the builder's sets are backed by the features for every
  selection that satisfies the containment invariant.
\<close>

lemma backedState_entidad:
  "backedState F st \<Longrightarrow> e \<in> entidadesObj st \<Longrightarrow> e \<noteq> [] \<and> (\<exists>f \<in> F. idxEntidad f = e)"
  by (simp add: backedState_def)

lemma backedState_municipio:
  "backedState F st \<Longrightarrow> municipiosObj st e = Some arr \<Longrightarrow> m \<in> set arr \<Longrightarrow>
   e \<noteq> [] \<and> m \<noteq> [] \<and> (\<exists>f \<in> F. idxEntidad f = e \<and> idxMunicipio f = m)"
  by (simp add: backedState_def)

lemma backedState_comunidad:
  "backedState F st \<Longrightarrow> comunidadesObj st k = Some arr \<Longrightarrow> c \<in> set arr \<Longrightarrow>
   c \<noteq> [] \<and> (\<exists>f \<in> F. idxEntidad f \<noteq> [] \<and> idxMunicipio f \<noteq> [] \<and>
                      joinKey (idxEntidad f) (idxMunicipio f) = k \<and> idxComunidad f = c)"
  by (simp add: backedState_def)

lemma backedState_pueblo:
  "backedState F st \<Longrightarrow> p \<in> pueblosObj st \<Longrightarrow> p \<noteq> [] \<and> (\<exists>f \<in> F. idxPueblo f = p)"
  by (simp add: backedState_def)

lemma extractLayerData_backed:
  assumes built: "extractLayerData allFeatures = Inr d"
    and clean: "list_all cleanFeature allFeatures"
    and inv: "hierarchyInvariant d s"
  shows "indexBacked d s"
proof -
  let ?F = "set (uniqueFeatures allFeatures)"
  from built obtain st where run: "indexFeatures (uniqueFeatures allFeatures) emptyBuildState = Inr st"
    and d: "d = \<lparr>entidades = entidadesObj st,
                 municipiosPorEntidad = map_option set \<circ> municipiosObj st,
                 comunidadesPorMunicipio = map_option set \<circ> comunidadesObj st,
                 pueblos = pueblosObj st,
                 features = uniqueFeatures allFeatures\<rparr>"
    by (auto simp: extractLayerData_def Let_def split: sum.splits)
  have fields: "entidades d = entidadesObj st" "pueblos d = pueblosObj st"
    "municipiosPorEntidad d = map_option set \<circ> municipiosObj st"
    "comunidadesPorMunicipio d = map_option set \<circ> comunidadesObj st"
    "set (features d) = ?F"
    by (simp_all add: d)
  from indexFeatures_backed [OF run backedState_empty] have backed: "backedState ?F st"
    by simp
  have cl: "cleanFeature f" if "f \<in> ?F" for f
  proof -
    from that set_uniqueFrom [of "{}" allFeatures] have "f \<in> set allFeatures"
      unfolding uniqueFeatures_def by blast
    with clean show ?thesis by (simp add: list_all_iff)
  qed
  have ent: "\<exists>f \<in> ?F. NOM_ENT f = Some e" if "e \<in> entidades d" for e
  proof -
    from that have "e \<in> entidadesObj st" by (simp add: fields)
    from backedState_entidad [OF backed this]
    obtain f where f: "f \<in> ?F" "idxEntidad f = e" "e \<noteq> []" by blast
    from clean_entidad [OF cl [OF f(1)] f(2) f(3)] f(1) show ?thesis by blast
  qed
  have mun: "CHR ''|'' \<notin> set e \<and> (\<exists>f \<in> ?F. NOM_ENT f = Some e \<and> NOM_MUN f = Some m)"
    if "m \<in> lookupSet (municipiosPorEntidad d) e" for e m
  proof -
    from that obtain arr where arr: "municipiosObj st e = Some arr" "m \<in> set arr"
      unfolding fields lookupSet_arrays by blast
    from backedState_municipio [OF backed arr]
    obtain f where f: "f \<in> ?F" "idxEntidad f = e" "idxMunicipio f = m" "e \<noteq> []" "m \<noteq> []"
      by blast
    from clean_entidad [OF cl [OF f(1)] f(2) f(4)] clean_municipio [OF cl [OF f(1)] f(3) f(5)] f(1)
    show ?thesis by blast
  qed
  have com: "\<exists>f \<in> ?F. NOM_ENT f = Some e \<and> NOM_MUN f = Some m \<and> featureComunidad f = Some c"
    if "c \<in> lookupSet (comunidadesPorMunicipio d) (joinKey e m)" and "CHR ''|'' \<notin> set e" for e m c
  proof -
    from that(1) obtain arr where arr: "comunidadesObj st (joinKey e m) = Some arr" "c \<in> set arr"
      unfolding fields lookupSet_arrays by blast
    from backedState_comunidad [OF backed arr]
    obtain f where f: "f \<in> ?F" "idxEntidad f \<noteq> []" "idxMunicipio f \<noteq> []"
        "joinKey (idxEntidad f) (idxMunicipio f) = joinKey e m" "idxComunidad f = c" "c \<noteq> []"
      by blast
    from clean_entidad [OF cl [OF f(1)] refl f(2)]
    have e1: "NOM_ENT f = Some (idxEntidad f)" "CHR ''|'' \<notin> set (idxEntidad f)" by simp_all
    from joinKey_inject [OF f(4) e1(2) that(2)] have same: "idxEntidad f = e" "idxMunicipio f = m"
      by simp_all
    from clean_municipio [OF cl [OF f(1)] refl f(3)] have m1: "NOM_MUN f = Some (idxMunicipio f)" .
    from clean_comunidad [OF cl [OF f(1)] f(5) f(6)] have c1: "featureComunidad f = Some c" .
    from e1(1) m1 c1 have "NOM_ENT f = Some e \<and> NOM_MUN f = Some m \<and> featureComunidad f = Some c"
      unfolding same by simp
    with f(1) show ?thesis by (rule_tac x = f in bexI)
  qed
  have pue: "\<exists>f \<in> ?F. Pueblo f = Some p" if "p \<in> pueblos d" for p
  proof -
    from that have "p \<in> pueblosObj st" by (simp add: fields)
    from backedState_pueblo [OF backed this]
    obtain f where f: "f \<in> ?F" "idxPueblo f = p" "p \<noteq> []" by blast
    from clean_pueblo [OF cl [OF f(1)] f(2) f(3)] f(1) show ?thesis by blast
  qed
  have c1: "pueblo s \<noteq> [] \<or> (\<forall>e \<in> entidades d. \<exists>f \<in> ?F. NOM_ENT f = Some e)"
    using ent by blast
  have c2: "pueblo s \<noteq> [] \<or> entidad s = [] \<or>
      (\<forall>m \<in> lookupSet (municipiosPorEntidad d) (entidad s).
         \<exists>f \<in> ?F. NOM_ENT f = Some (entidad s) \<and> NOM_MUN f = Some m)"
    using mun by blast
  have c3: "pueblo s \<noteq> [] \<or> entidad s = [] \<or> municipio s = [] \<or>
      (\<forall>c \<in> lookupSet (comunidadesPorMunicipio d) (joinKey (entidad s) (municipio s)).
         \<exists>f \<in> ?F. NOM_ENT f = Some (entidad s) \<and> NOM_MUN f = Some (municipio s) \<and>
                   featureComunidad f = Some c)"
  proof (cases "municipio s = []")
    case True
    then show ?thesis by simp
  next
    case False
    with inv have "municipio s \<in> lookupSet (municipiosPorEntidad d) (entidad s)"
      by (simp add: hierarchyInvariant_def)
    from mun [OF this] have "CHR ''|'' \<notin> set (entidad s)" by simp
    with com show ?thesis by blast
  qed
  have c4: "entidad s \<noteq> [] \<or> municipio s \<noteq> [] \<or> comunidad s \<noteq> [] \<or>
      (\<forall>p \<in> pueblos d. \<exists>f \<in> ?F. Pueblo f = Some p)"
    using pue by blast
  from c1 c2 c3 c4 show ?thesis
    unfolding indexBacked_def list_ex_iff fields(5) by (intro conjI)
qed

lemma entidades_live:
  assumes "indexBacked d s" and "e \<in> sortedEntidades (Some d) s"
  shows "0 < getFilteredCount (Some d) (sel e [] [] (pueblo s))"
proof (cases "pueblo s = []")
  case True
  with assms obtain f where "f \<in> set (features d)" "NOM_ENT f = Some e"
    by (auto simp: indexBacked_def sortedEntidades_def list_ex_iff)
  with True show ?thesis
    by (intro count_positive [of f]) (simp_all add: countPredicate_iff sel_def)
next
  case False
  with assms(2) obtain f where "f \<in> set (features d)" "NOM_ENT f = Some e"
      "Pueblo f = Some (pueblo s)"
    by (auto simp: sortedEntidades_def in_set_map_filter split: if_splits)
  then show ?thesis
    by (intro count_positive [of f]) (simp_all add: countPredicate_iff sel_def)
qed

lemma municipios_live:
  assumes "indexBacked d s" and "m \<in> sortedMunicipios (Some d) s"
  shows "0 < getFilteredCount (Some d) (sel (entidad s) m [] (pueblo s))"
proof (cases "pueblo s = []")
  case True
  with assms obtain f where "f \<in> set (features d)" "NOM_ENT f = Some (entidad s)"
      "NOM_MUN f = Some m"
    by (auto simp: indexBacked_def sortedMunicipios_def list_ex_iff split: if_splits)
  with True show ?thesis
    by (intro count_positive [of f]) (simp_all add: countPredicate_iff sel_def)
next
  case False
  with assms(2) obtain f where "f \<in> set (features d)" "NOM_ENT f = Some (entidad s)"
      "NOM_MUN f = Some m" "Pueblo f = Some (pueblo s)"
    by (auto simp: sortedMunicipios_def in_set_map_filter split: if_splits)
  then show ?thesis
    by (intro count_positive [of f]) (simp_all add: countPredicate_iff sel_def)
qed

lemma comunidades_live:
  assumes "indexBacked d s" and "c \<in> sortedComunidades (Some d) s"
  shows "0 < getFilteredCount (Some d) (sel (entidad s) (municipio s) c (pueblo s))"
proof (cases "pueblo s = []")
  case True
  with assms obtain f where "f \<in> set (features d)" "NOM_ENT f = Some (entidad s)"
      "NOM_MUN f = Some (municipio s)" "featureComunidad f = Some c"
    by (auto simp: indexBacked_def sortedComunidades_def list_ex_iff split: if_splits)
  with True show ?thesis
    by (intro count_positive [of f]) (simp_all add: countPredicate_iff sel_def)
next
  case False
  with assms(2) obtain f where "f \<in> set (features d)" "NOM_ENT f = Some (entidad s)"
      "NOM_MUN f = Some (municipio s)" "featureComunidad f = Some c" "Pueblo f = Some (pueblo s)"
    by (auto simp: sortedComunidades_def in_set_map_filter split: if_splits)
  then show ?thesis
    by (intro count_positive [of f]) (simp_all add: countPredicate_iff sel_def)
qed

lemma pueblos_live:
  assumes "indexBacked d s" and "p \<in> filteredPueblosByHierarchy (Some d) s"
  shows "0 < getFilteredCount (Some d) (s\<lparr>pueblo := p\<rparr>)"
proof (cases "entidad s = [] \<and> municipio s = [] \<and> comunidad s = []")
  case True
  with assms obtain f where "f \<in> set (features d)" "Pueblo f = Some p"
    by (auto simp: indexBacked_def filteredPueblosByHierarchy_def list_ex_iff)
  with True show ?thesis
    by (intro count_positive [of f]) (simp_all add: countPredicate_iff)
next
  case False
  with assms(2) obtain f where "f \<in> set (features d)"
      "entidad s = [] \<or> NOM_ENT f = Some (entidad s)"
      "municipio s = [] \<or> NOM_MUN f = Some (municipio s)"
      "comunidad s = [] \<or> featureComunidad f = Some (comunidad s)" "Pueblo f = Some p"
    by (auto simp: filteredPueblosByHierarchy_def Let_def in_set_map_filter split: if_splits)
  then show ?thesis
    by (intro count_positive [of f]) (auto simp: countPredicate_iff)
qed

text \<open>
  C5, amended. For the index that \<open>extractLayerData\<close> builds from features whose
  facet properties have no white space around them and whose state names do not
  contain the key separator \<open>|\<close>, and for every selection that satisfies the
  containment invariant, no offered value is a dead end under the facets its list
  consults: an offered state has a matching feature together with the selected
  people; an offered municipality together with the selected state and people; an
  offered community together with the selected state, municipality and people; an
  offered people together with the selected state, municipality and community.
  That is, substituting the offered value and clearing the hierarchical facets
  below it gives a selection with a positive count.
\<close>

theorem offered_values_live:
  assumes "extractLayerData allFeatures = Inr d"
    and "list_all cleanFeature allFeatures"
    and "hierarchyInvariant d s"
  shows "(\<forall>e \<in> sortedEntidades (Some d) s.
            0 < getFilteredCount (Some d) (sel e [] [] (pueblo s))) \<and>
         (\<forall>m \<in> sortedMunicipios (Some d) s.
            0 < getFilteredCount (Some d) (sel (entidad s) m [] (pueblo s))) \<and>
         (\<forall>c \<in> sortedComunidades (Some d) s.
            0 < getFilteredCount (Some d) (sel (entidad s) (municipio s) c (pueblo s))) \<and>
         (\<forall>p \<in> filteredPueblosByHierarchy (Some d) s.
            0 < getFilteredCount (Some d) (s\<lparr>pueblo := p\<rparr>))"
  using extractLayerData_backed [OF assms]
    entidades_live municipios_live comunidades_live pueblos_live by blast

theorem offered_values_live_witness:
  "extractLayerData exampleFeatures = Inr exampleData \<and>
   list_all cleanFeature exampleFeatures \<and>
   hierarchyInvariant exampleData (sel ''Oaxaca'' Juchitan [] []) \<and>
   ''Y'' \<in> sortedComunidades (Some exampleData) (sel ''Oaxaca'' Juchitan [] []) \<and>
   0 < getFilteredCount (Some exampleData) (sel ''Oaxaca'' Juchitan ''Y'' []) \<and>
   ''Zapoteco'' \<in> filteredPueblosByHierarchy (Some exampleData) (sel ''Oaxaca'' Juchitan [] []) \<and>
   0 < getFilteredCount (Some exampleData) (sel ''Oaxaca'' Juchitan [] ''Zapoteco'')"
proof -
  let ?s = "sel ''Oaxaca'' Juchitan [] []"
  have h1: "extractLayerData exampleFeatures = Inr exampleData"
    by (rule extractLayerData_example)
  have bar: "CHR ''|'' \<notin> set ''Oaxaca''" "CHR ''|'' \<notin> set ''Chiapas''" by simp_all
  have h2: "list_all cleanFeature exampleFeatures"
    by (simp add: exampleFeatures_def cleanFeature_def trimmedProperty_def mkFeature_def
        trim_examples trim_Juchitan bar)
  have h3: "hierarchyInvariant exampleData ?s"
    by (simp add: hierarchyInvariant_def sel_def index_exampleData Juchitan_neq)
  have m1: "''Y'' \<in> sortedComunidades (Some exampleData) ?s"
    by (simp add: sortedComunidades_def sel_def index_exampleData Juchitan_neq)
  have m2: "''Zapoteco'' \<in> filteredPueblosByHierarchy (Some exampleData) ?s"
    by (simp add: filteredPueblosByHierarchy_def Let_def example_simps Juchitan_neq)
  from offered_values_live [OF h1 h2 h3] m1
  have c1: "0 < getFilteredCount (Some exampleData)
              (sel (entidad ?s) (municipio ?s) ''Y'' (pueblo ?s))"
    by blast
  from offered_values_live [OF h1 h2 h3] m2
  have c2: "0 < getFilteredCount (Some exampleData) (?s\<lparr>pueblo := ''Zapoteco''\<rparr>)"
    by blast
  from h1 h2 h3 m1 m2 c1 c2 show ?thesis by (simp add: sel_def)
qed

text \<open>
  The claim as stated fails in three ways. With the offered value substituted into
  the whole selection: the state list consults only the people facet, so with
  state Oaxaca and municipality Juchitan selected it offers Chiapas, which no
  feature combines with that municipality. On a state property with a leading
  space: the index lists the trimmed name, which no feature carries. On a state
  name that contains \<open>|\<close>: the pairs \<open>(a, b|c)\<close> and \<open>(a|b, c)\<close> share the key \<open>a|b|c\<close>, so
  under the first pair the community of the second is offered.
\<close>

theorem offered_values_live_counterexample:
  "hierarchyInvariant exampleData (sel ''Oaxaca'' Juchitan [] []) \<and>
   ''Chiapas'' \<in> sortedEntidades (Some exampleData) (sel ''Oaxaca'' Juchitan [] []) \<and>
   getFilteredCount (Some exampleData) (sel ''Chiapas'' Juchitan [] []) = 0 \<and>
   extractLayerData paddedFeatures = Inr paddedData \<and>
   hierarchyInvariant paddedData emptyFilters \<and>
   ''Oaxaca'' \<in> sortedEntidades (Some paddedData) emptyFilters \<and>
   getFilteredCount (Some paddedData) (sel ''Oaxaca'' [] [] []) = 0 \<and>
   extractLayerData barFeatures = Inr barData \<and>
   hierarchyInvariant barData (sel ''a'' ''b|c'' [] []) \<and>
   ''Y'' \<in> sortedComunidades (Some barData) (sel ''a'' ''b|c'' [] []) \<and>
   getFilteredCount (Some barData) (sel ''a'' ''b|c'' ''Y'' []) = 0"
proof -
  have a: "hierarchyInvariant exampleData (sel ''Oaxaca'' Juchitan [] [])"
    by (simp add: hierarchyInvariant_def sel_def index_exampleData Juchitan_neq)
  have b: "''Chiapas'' \<in> sortedEntidades (Some exampleData) (sel ''Oaxaca'' Juchitan [] [])"
    by (simp add: sortedEntidades_def sel_def index_exampleData)
  have c: "getFilteredCount (Some exampleData) (sel ''Chiapas'' Juchitan [] []) = 0"
    by (simp add: getFilteredCount_def countPredicate_def example_simps trim_Juchitan Juchitan_neq)
  have d: "hierarchyInvariant paddedData emptyFilters"
    by (simp add: hierarchyInvariant_empty)
  have e: "''Oaxaca'' \<in> sortedEntidades (Some paddedData) emptyFilters"
    by (simp add: sortedEntidades_def emptyFilters_def paddedData_def)
  have f: "getFilteredCount (Some paddedData) (sel ''Oaxaca'' [] [] []) = 0"
    by (simp add: getFilteredCount_def countPredicate_def paddedData_def paddedFeatures_def
        mkFeature_def sel_def trim_examples)
  have g: "hierarchyInvariant barData (sel ''a'' ''b|c'' [] [])"
    by (simp add: hierarchyInvariant_def sel_def barData_def lookupSet_def)
  have h: "''Y'' \<in> sortedComunidades (Some barData) (sel ''a'' ''b|c'' [] [])"
    by (simp add: sortedComunidades_def sel_def barData_def lookupSet_def example_keys)
  have i: "getFilteredCount (Some barData) (sel ''a'' ''b|c'' ''Y'' []) = 0"
    by (simp add: getFilteredCount_def countPredicate_def barData_def barFeatures_def
        mkFeature_def sel_def trim_examples featureComunidad_def js_or_def truthy_def)
  from a b c d e f g h i extractLayerData_padded extractLayerData_bar show ?thesis by simp
qed

end
